theory Spec2Isabelle
  imports
    Main
    "HOL-Library.Word"
    "HOL-Library.AList"
    "HOL-Library.Char_ord"
    "HOL-Library.List_Lexorder"
    "HOL-Library.Multiset"
begin

section \<open>Shetka API: the initData verifier, the orders table and the two handlers\<close>

text \<open>
  The development follows \<^verbatim>\<open>src/api.py\<close>. Python \<^verbatim>\<open>str\<close> values are
  \<^typ>\<open>string\<close>s whose characters are read as code points below 256; \<^verbatim>\<open>bytes\<close>
  are lists of 8-bit words. Functions of the Python standard library, of asyncpg and of
  the web framework are not part of the repository: where a handler calls one whose result
  cannot be written down here (URL decoding, HMAC-SHA256, the JSON codec, \<^verbatim>\<open>repr\<close>,
  \<^verbatim>\<open>int\<close> of a string, \<^verbatim>\<open>isoformat\<close>) the model takes it as a field of the
  record \<open>pylib\<close>, so that every theorem holds for whatever these functions compute.
  JSON numbers with a fraction or an exponent are outside the model.
\<close>

subsection \<open>Values, exceptions and configuration\<close>

type_synonym byte = "8 word"

type_synonym timestamp = int

datatype json =
    JNull
  | JBool bool
  | JInt int
  | JStr string
  | JList "json list"
  | JDict "(string \<times> json) list"

text \<open>
  \<open>JDict\<close> carries the items of a Python dictionary, whose keys are distinct.
  \<open>HTTPException c d\<close> is \<^verbatim>\<open>fastapi.HTTPException(c, d)\<close>; every other
  constructor is a Python exception that no handler catches.
\<close>

datatype exn =
    HTTPException nat string
  | KeyError
  | TypeError
  | ValueError
  | AttributeError
  | JSONDecodeError
  | RuntimeError
  | DataError

text \<open>
  The status line the framework sends: an \<^verbatim>\<open>HTTPException\<close> carries its own
  code, an exception that escapes the handler becomes 500 Internal Server Error.
\<close>

fun status_code :: "exn \<Rightarrow> nat" where
  "status_code (HTTPException c d) = c"
| "status_code e = 500"

text \<open>
  The two secrets read from the environment. The module raises at import time unless both
  are non-empty; no property below needs that.
\<close>

record config =
  BOT_TOKEN :: string
  ADMIN_API_TOKEN :: string

record pylib =
  parse_qsl :: "string \<Rightarrow> (string \<times> string) list"
  hmac_sha256 :: "byte list \<Rightarrow> byte list \<Rightarrow> byte list"
  json_loads :: "string \<Rightarrow> json option"
  json_dumps :: "json \<Rightarrow> string"
  py_repr :: "json \<Rightarrow> string"
  int_of_str :: "string \<Rightarrow> int option"
  isoformat :: "timestamp \<Rightarrow> string"

text \<open>
  \<open>parse_qsl L s\<close> is \<^verbatim>\<open>parse_qsl(s, keep_blank_values=True)\<close>;
  \<open>hmac_sha256 L k m\<close> is \<^verbatim>\<open>hmac.new(k, m, hashlib.sha256).digest()\<close>;
  \<open>json_loads L s\<close> is \<open>None\<close> where \<^verbatim>\<open>json.loads(s)\<close> raises;
  \<open>json_dumps L v\<close> is \<^verbatim>\<open>json.dumps(v, ensure_ascii=False)\<close>;
  \<open>py_repr L v\<close> is \<^verbatim>\<open>str(v)\<close> for a value that is not a string;
  \<open>int_of_str L s\<close> is \<open>None\<close> where \<^verbatim>\<open>int(s)\<close> raises.
  The facts about these functions that the proofs below rely on are collected here: the
  empty query string has no fields, the empty string is not a JSON document, and a SHA-256
  digest has 32 bytes.
\<close>

definition pylib_ok :: "pylib \<Rightarrow> bool" where
  "pylib_ok L \<longleftrightarrow>
     parse_qsl L [] = [] \<and> json_loads L [] = None \<and>
     (\<forall>k m. length (hmac_sha256 L k m) = 32)"

subsection \<open>Python built-ins used by the handlers\<close>

text \<open>\<^verbatim>\<open>dict(pairs)\<close>: keys keep the place of their first occurrence, the last value wins.\<close>

definition py_dict :: "('k \<times> 'v) list \<Rightarrow> ('k \<times> 'v) list" where
  "py_dict ps = foldl (\<lambda>d (k, v). AList.update k v d) [] ps"

text \<open>\<^verbatim>\<open>d[k]\<close> on a dictionary.\<close>

definition getitem :: "('k \<times> 'v) list \<Rightarrow> 'k \<Rightarrow> exn + 'v" where
  "getitem d k = (case map_of d k of None \<Rightarrow> Inl KeyError | Some v \<Rightarrow> Inr v)"

text \<open>\<^verbatim>\<open>sep.join(xs)\<close>.\<close>

fun str_join :: "string \<Rightarrow> string list \<Rightarrow> string" where
  "str_join sep [] = []"
| "str_join sep [x] = x"
| "str_join sep (x # y # ys) = x @ sep @ str_join sep (y # ys)"

text \<open>\<^verbatim>\<open>str.isspace\<close> on one character, for code points below 256.\<close>

definition is_space :: "char \<Rightarrow> bool" where
  "is_space c \<longleftrightarrow> (of_char c :: nat) \<in> {9, 10, 11, 12, 13, 28, 29, 30, 31, 32, 133, 160}"

definition strip :: "string \<Rightarrow> string" where
  "strip s = rev (dropWhile is_space (rev (dropWhile is_space s)))"

text \<open>\<^verbatim>\<open>str(v)\<close>: a string is returned as it is.\<close>

definition py_str :: "pylib \<Rightarrow> json \<Rightarrow> string" where
  "py_str L v = (case v of JStr s \<Rightarrow> s | _ \<Rightarrow> py_repr L v)"

text \<open>Truth value of an object, as \<^verbatim>\<open>or\<close> and \<^verbatim>\<open>not\<close> test it.\<close>

fun truthy :: "json \<Rightarrow> bool" where
  "truthy JNull = False"
| "truthy (JBool b) = b"
| "truthy (JInt n) = (n \<noteq> 0)"
| "truthy (JStr s) = (s \<noteq> [])"
| "truthy (JList xs) = (xs \<noteq> [])"
| "truthy (JDict kvs) = (kvs \<noteq> [])"

text \<open>Iterating over an object in a comprehension.\<close>

fun py_iter :: "json \<Rightarrow> exn + json list" where
  "py_iter (JList xs) = Inr xs"
| "py_iter (JStr s) = Inr (map (\<lambda>c. JStr [c]) s)"
| "py_iter (JDict kvs) = Inr (map (\<lambda>kv. JStr (fst kv)) kvs)"
| "py_iter v = Inl TypeError"

text \<open>\<^verbatim>\<open>v["id"]\<close>: only a dictionary can be subscripted with a string.\<close>

fun subscript :: "json \<Rightarrow> string \<Rightarrow> exn + json" where
  "subscript (JDict kvs) k = getitem kvs k"
| "subscript v k = Inl TypeError"

text \<open>\<^verbatim>\<open>int(v)\<close>.\<close>

fun py_int :: "pylib \<Rightarrow> json \<Rightarrow> exn + int" where
  "py_int L (JInt n) = Inr n"
| "py_int L (JBool b) = Inr (if b then 1 else 0)"
| "py_int L (JStr s) = (case int_of_str L s of None \<Rightarrow> Inl ValueError | Some n \<Rightarrow> Inr n)"
| "py_int L v = Inl TypeError"

text \<open>A bytes literal of ASCII characters, and \<^verbatim>\<open>str.encode()\<close> (UTF-8).\<close>

definition bytes_lit :: "string \<Rightarrow> byte list" where
  "bytes_lit s = map (\<lambda>c. of_nat (of_char c)) s"

definition encode :: "string \<Rightarrow> byte list" where
  "encode s = concat (map (\<lambda>c. let n = (of_char c :: nat) in
       if n < 128 then [of_nat n] else [of_nat (192 + n div 64), of_nat (128 + n mod 64)]) s)"

text \<open>\<^verbatim>\<open>hexdigest()\<close>: two lower-case hexadecimal digits for each byte.\<close>

definition hex_digit :: "nat \<Rightarrow> char" where
  "hex_digit n = (if n < 10 then char_of (48 + n) else char_of (87 + n))"

definition hexdigest :: "byte list \<Rightarrow> string" where
  "hexdigest bs = concat (map (\<lambda>b. [hex_digit (unat b div 16), hex_digit (unat b mod 16)]) bs)"

subsection \<open>The signature verifier\<close>

definition NL :: string where
  "NL = [CHR 0x0A]"

text \<open>
  The generator \<^verbatim>\<open>f"{k}={pairs[k]}" for k in sorted(pairs.keys())\<close>, run over a
  list of keys.
\<close>

fun check_lines :: "(string \<times> string) list \<Rightarrow> string list \<Rightarrow> exn + string list" where
  "check_lines pairs [] = Inr []"
| "check_lines pairs (k # ks) =
     (case getitem pairs k of
        Inl e \<Rightarrow> Inl e
      | Inr v \<Rightarrow>
          (case check_lines pairs ks of
             Inl e \<Rightarrow> Inl e
           | Inr ls \<Rightarrow> Inr ((k @ ''='' @ v) # ls)))"

definition verify_init_data :: "pylib \<Rightarrow> config \<Rightarrow> string \<Rightarrow> exn + json" where
  "verify_init_data L C init_data =
     (if init_data = [] then Inl (HTTPException 401 ''Missing initData'')
      else
        let pairs = py_dict (parse_qsl L init_data) in
        (case map_of pairs ''hash'' of
           None \<Rightarrow> Inl (HTTPException 401 ''Missing hash'')
         | Some recv_hash \<Rightarrow>
             if recv_hash = [] then Inl (HTTPException 401 ''Missing hash'')
             else
               let pairs = AList.delete ''hash'' pairs in
               (case check_lines pairs (sort (map fst pairs)) of
                  Inl e \<Rightarrow> Inl e
                | Inr ls \<Rightarrow>
                    let data_check = str_join NL ls;
                        secret_key = hmac_sha256 L (bytes_lit ''WebAppData'') (encode (BOT_TOKEN C));
                        calc_hash = hexdigest (hmac_sha256 L secret_key (encode data_check))
                    in
                    if calc_hash \<noteq> recv_hash then Inl (HTTPException 401 ''Bad signature'')
                    else
                      (case map_of pairs ''user'' of
                         None \<Rightarrow> Inl (HTTPException 401 ''Missing user'')
                       | Some user_raw \<Rightarrow>
                           if user_raw = [] then Inl (HTTPException 401 ''Missing user'')
                           else
                             (case json_loads L user_raw of
                                None \<Rightarrow> Inl (HTTPException 401 ''Bad user json'')
                              | Some user \<Rightarrow> Inr user)))))"

subsection \<open>The orders table\<close>

text \<open>
  One row of \<^verbatim>\<open>orders\<close>, a column for each field (\<open>row_id\<close> is the column
  \<^verbatim>\<open>id\<close>); \<^verbatim>\<open>NULL\<close> is \<open>None\<close>. A database is the list of rows
  with the sequence that feeds \<^verbatim>\<open>id\<close>. The table \<^verbatim>\<open>users\<close> is created at
  startup and never read or written by a handler.
\<close>

record order_row =
  row_id :: int
  public_no :: string
  owner_tg_id :: "int option"
  owner_phone :: "string option"
  item :: string
  services_json :: string
  status :: string
  price :: "int option"
  comment :: "string option"
  is_closed :: bool
  created_at :: timestamp
  updated_at :: timestamp

record db =
  orders :: "order_row list"
  orders_id_seq :: int

text \<open>The constraint \<^verbatim>\<open>public_no TEXT UNIQUE NOT NULL\<close>.\<close>

definition unique_public_no :: "db \<Rightarrow> bool" where
  "unique_public_no d \<longleftrightarrow> distinct (map public_no (orders d))"

text \<open>The arguments \<^verbatim>\<open>$1\<close> to \<^verbatim>\<open>$8\<close> of the upsert statement, as the server receives them.\<close>

record upsert_params =
  p_public_no :: string
  p_owner_tg_id :: "int option"
  p_owner_phone :: "string option"
  p_item :: string
  p_services_json :: string
  p_status :: string
  p_price :: "int option"
  p_comment :: "string option"

text \<open>
  \<^verbatim>\<open>INSERT INTO orders (...) VALUES ($1,...,$8, now(), now()) ON CONFLICT(public_no)
  DO UPDATE SET ...\<close>, run at transaction time \<open>now\<close>. The default of \<^verbatim>\<open>id\<close>
  draws from the sequence before the conflict is detected, so the sequence advances on
  both paths.
\<close>

definition insert_row :: "int \<Rightarrow> timestamp \<Rightarrow> upsert_params \<Rightarrow> order_row" where
  "insert_row i now a =
     \<lparr> row_id = i, public_no = p_public_no a, owner_tg_id = p_owner_tg_id a,
       owner_phone = p_owner_phone a, item = p_item a, services_json = p_services_json a,
       status = p_status a, price = p_price a, comment = p_comment a, is_closed = False,
       created_at = now, updated_at = now \<rparr>"

definition update_row :: "timestamp \<Rightarrow> upsert_params \<Rightarrow> order_row \<Rightarrow> order_row" where
  "update_row now a r =
     r \<lparr> owner_tg_id := p_owner_tg_id a, owner_phone := p_owner_phone a, item := p_item a,
        services_json := p_services_json a, status := p_status a, price := p_price a,
        comment := p_comment a, updated_at := now \<rparr>"

definition execute_upsert :: "db \<Rightarrow> timestamp \<Rightarrow> upsert_params \<Rightarrow> db" where
  "execute_upsert d now a =
     (let i = orders_id_seq d + 1 in
      if p_public_no a \<in> set (map public_no (orders d))
      then d \<lparr> orders := map (\<lambda>r. if public_no r = p_public_no a then update_row now a r else r)
                             (orders d),
               orders_id_seq := i \<rparr>
      else d \<lparr> orders := orders d @ [insert_row i now a], orders_id_seq := i \<rparr>)"

text \<open>
  \<^verbatim>\<open>SELECT ... FROM orders WHERE owner_tg_id=$1 ORDER BY created_at DESC\<close>. A row
  whose owner is \<^verbatim>\<open>NULL\<close> matches no argument. Rows with equal \<^verbatim>\<open>created_at\<close>
  come in table order here; the engine may return them in any order.
\<close>

definition fetch_orders :: "db \<Rightarrow> int \<Rightarrow> order_row list" where
  "fetch_orders d tg_id =
     sort_key (\<lambda>r. - created_at r) (filter (\<lambda>r. owner_tg_id r = Some tg_id) (orders d))"

text \<open>
  How asyncpg encodes a Python argument for a column: \<^verbatim>\<open>None\<close> is \<^verbatim>\<open>NULL\<close>;
  an integer column (\<open>bits\<close> wide) takes an \<^verbatim>\<open>int\<close> in range, \<^verbatim>\<open>bool\<close> being
  an \<^verbatim>\<open>int\<close>; a text column takes a \<^verbatim>\<open>str\<close> without the NUL character.
  Anything else makes the call raise, and nothing is written.
\<close>

definition int_arg :: "nat \<Rightarrow> int \<Rightarrow> exn + int" where
  "int_arg bits n =
     (if - (2 ^ (bits - 1)) \<le> n \<and> n < 2 ^ (bits - 1) then Inr n else Inl DataError)"

fun int_param :: "nat \<Rightarrow> json \<Rightarrow> exn + int option" where
  "int_param bits JNull = Inr None"
| "int_param bits (JInt n) = (case int_arg bits n of Inl e \<Rightarrow> Inl e | Inr m \<Rightarrow> Inr (Some m))"
| "int_param bits (JBool b) = Inr (Some (if b then 1 else 0))"
| "int_param bits v = Inl DataError"

definition str_param :: "string \<Rightarrow> exn + string" where
  "str_param s = (if CHR 0x00 \<in> set s then Inl DataError else Inr s)"

fun text_param :: "json \<Rightarrow> exn + string option" where
  "text_param JNull = Inr None"
| "text_param (JStr s) = (case str_param s of Inl e \<Rightarrow> Inl e | Inr t \<Rightarrow> Inr (Some t))"
| "text_param v = Inl DataError"

subsection \<open>The handlers\<close>

text \<open>\<^verbatim>\<open>pool\<close> is \<open>None\<close> until the startup hook has run.\<close>

definition require_pool :: "db option \<Rightarrow> exn + db" where
  "require_pool pool = (case pool of None \<Rightarrow> Inl RuntimeError | Some p \<Rightarrow> Inr p)"

definition require_admin :: "config \<Rightarrow> string \<Rightarrow> exn + unit" where
  "require_admin C token =
     (if token \<noteq> ADMIN_API_TOKEN C then Inl (HTTPException 401 ''Bad admin token'') else Inr ())"

text \<open>The loop of \<^verbatim>\<open>me_orders\<close> that turns the fetched rows into the response.\<close>

fun order_dicts :: "pylib \<Rightarrow> order_row list \<Rightarrow> exn + json list" where
  "order_dicts L [] = Inr []"
| "order_dicts L (r # rows) =
     (case json_loads L (if services_json r \<noteq> [] then services_json r else ''[]'') of
        None \<Rightarrow> Inl JSONDecodeError
      | Some services \<Rightarrow>
          (case order_dicts L rows of
             Inl e \<Rightarrow> Inl e
           | Inr rest \<Rightarrow>
               Inr (JDict
                 [(''public_no'', JStr (public_no r)),
                  (''item'', JStr (item r)),
                  (''services'', services),
                  (''status'', JStr (status r)),
                  (''price'', (case price r of None \<Rightarrow> JNull | Some n \<Rightarrow> JInt n)),
                  (''comment'', (case comment r of None \<Rightarrow> JNull | Some s \<Rightarrow> JStr s)),
                  (''created_at'', JStr (isoformat L (created_at r))),
                  (''updated_at'', JStr (isoformat L (updated_at r)))] # rest)))"

definition me_orders :: "pylib \<Rightarrow> config \<Rightarrow> db option \<Rightarrow> string \<Rightarrow> exn + json" where
  "me_orders L C pool x_telegram_initdata =
     (case verify_init_data L C x_telegram_initdata of
        Inl e \<Rightarrow> Inl e
      | Inr user \<Rightarrow>
     (case subscript user ''id'' of
        Inl e \<Rightarrow> Inl e
      | Inr v \<Rightarrow>
     (case py_int L v of
        Inl e \<Rightarrow> Inl e
      | Inr tg_id \<Rightarrow>
     (case require_pool pool of
        Inl e \<Rightarrow> Inl e
      | Inr p \<Rightarrow>
     (case int_arg 64 tg_id of
        Inl e \<Rightarrow> Inl e
      | Inr arg \<Rightarrow>
     (case order_dicts L (fetch_orders p arg) of
        Inl e \<Rightarrow> Inl e
      | Inr out \<Rightarrow> Inr (JDict [(''ok'', JBool True), (''orders'', JList out)])))))))"

text \<open>\<^verbatim>\<open>body.get(k, default)\<close> on the items of a dictionary.\<close>

definition dict_get :: "(string \<times> json) list \<Rightarrow> string \<Rightarrow> json \<Rightarrow> json" where
  "dict_get kvs k dflt = (case map_of kvs k of None \<Rightarrow> dflt | Some v \<Rightarrow> v)"

text \<open>\<^verbatim>\<open>[str(x).strip() for x in services if str(x).strip()]\<close>.\<close>

definition clean_services :: "pylib \<Rightarrow> json list \<Rightarrow> string list" where
  "clean_services L xs = map (\<lambda>x. strip (py_str L x)) (filter (\<lambda>x. strip (py_str L x) \<noteq> []) xs)"

text \<open>
  What the handler passes to \<^verbatim>\<open>conn.execute\<close>: three strings it has checked, the
  serialised services, and four values taken from the body as they are.
\<close>

record upsert_call =
  c_public_no :: string
  c_owner_tg_id :: json
  c_owner_phone :: json
  c_item :: string
  c_services_json :: string
  c_status :: string
  c_price :: json
  c_comment :: json

text \<open>Lines 141 to 156 of \<^verbatim>\<open>admin_upsert\<close>, on the decoded body.\<close>

definition upsert_fields :: "pylib \<Rightarrow> json \<Rightarrow> exn + upsert_call" where
  "upsert_fields L body =
     (case body of
        JDict kvs \<Rightarrow>
          (let public_no = strip (py_str L (dict_get kvs ''public_no'' (JStr []))) in
           if public_no = [] then Inl (HTTPException 400 ''public_no required'')
           else
             let item = strip (py_str L (dict_get kvs ''item'' (JStr [])));
                 status = strip (py_str L (dict_get kvs ''status'' (JStr [])))
             in
             if item = [] \<or> status = [] then Inl (HTTPException 400 ''item/status required'')
             else
               let owner_tg_id = dict_get kvs ''owner_tg_id'' JNull;
                   owner_phone = dict_get kvs ''owner_phone'' JNull;
                   services = (let s = dict_get kvs ''services'' JNull in
                               if truthy s then s else JList []);
                   price = dict_get kvs ''price'' JNull;
                   comment = dict_get kvs ''comment'' JNull
               in
               (case py_iter services of
                  Inl e \<Rightarrow> Inl e
                | Inr xs \<Rightarrow>
                    Inr \<lparr> c_public_no = public_no, c_owner_tg_id = owner_tg_id,
                          c_owner_phone = owner_phone, c_item = item,
                          c_services_json = json_dumps L (JList (map JStr (clean_services L xs))),
                          c_status = status, c_price = price, c_comment = comment \<rparr>))
      | _ \<Rightarrow> Inl AttributeError)"

text \<open>Encoding the eight arguments, in the order of the call.\<close>

definition encode_args :: "upsert_call \<Rightarrow> exn + upsert_params" where
  "encode_args c =
     (case str_param (c_public_no c) of Inl e \<Rightarrow> Inl e | Inr a1 \<Rightarrow>
     (case int_param 64 (c_owner_tg_id c) of Inl e \<Rightarrow> Inl e | Inr a2 \<Rightarrow>
     (case text_param (c_owner_phone c) of Inl e \<Rightarrow> Inl e | Inr a3 \<Rightarrow>
     (case str_param (c_item c) of Inl e \<Rightarrow> Inl e | Inr a4 \<Rightarrow>
     (case str_param (c_services_json c) of Inl e \<Rightarrow> Inl e | Inr a5 \<Rightarrow>
     (case str_param (c_status c) of Inl e \<Rightarrow> Inl e | Inr a6 \<Rightarrow>
     (case int_param 32 (c_price c) of Inl e \<Rightarrow> Inl e | Inr a7 \<Rightarrow>
     (case text_param (c_comment c) of Inl e \<Rightarrow> Inl e | Inr a8 \<Rightarrow>
        Inr \<lparr> p_public_no = a1, p_owner_tg_id = a2, p_owner_phone = a3, p_item = a4,
              p_services_json = a5, p_status = a6, p_price = a7, p_comment = a8 \<rparr>))))))))"

text \<open>
  The handler returns its response or the exception it raised, together with the database
  as it is afterwards. \<open>req\<close> is the raw request body, decoded by \<^verbatim>\<open>req.json()\<close>.
\<close>

definition OK :: json where
  "OK = JDict [(''ok'', JBool True)]"

definition admin_upsert ::
  "pylib \<Rightarrow> config \<Rightarrow> db option \<Rightarrow> timestamp \<Rightarrow> string \<Rightarrow> string \<Rightarrow> (exn + json) \<times> db option" where
  "admin_upsert L C pool now req x_admin_token =
     (case require_admin C x_admin_token of
        Inl e \<Rightarrow> (Inl e, pool)
      | Inr u \<Rightarrow>
     (case json_loads L req of
        None \<Rightarrow> (Inl JSONDecodeError, pool)
      | Some body \<Rightarrow>
     (case upsert_fields L body of
        Inl e \<Rightarrow> (Inl e, pool)
      | Inr c \<Rightarrow>
     (case require_pool pool of
        Inl e \<Rightarrow> (Inl e, pool)
      | Inr p \<Rightarrow>
     (case encode_args c of
        Inl e \<Rightarrow> (Inl e, pool)
      | Inr a \<Rightarrow> (Inr OK, Some (execute_upsert p now a)))))))"

subsection \<open>Notions used to state the properties\<close>

text \<open>
  The check-string as the specification words it: the pairs sorted by key, each rendered
  as \<^verbatim>\<open>key=value\<close>, the lines joined by single newlines. The signature a payload
  must carry is the hexadecimal HMAC-SHA256 of that string under the key derived from the
  bot token.
\<close>

definition check_string :: "(string \<times> string) list \<Rightarrow> string" where
  "check_string pairs = str_join NL (map (\<lambda>(k, v). k @ ''='' @ v) (sort_key fst pairs))"

definition derived_key :: "pylib \<Rightarrow> config \<Rightarrow> byte list" where
  "derived_key L C = hmac_sha256 L (bytes_lit ''WebAppData'') (encode (BOT_TOKEN C))"

definition expected_hash :: "pylib \<Rightarrow> config \<Rightarrow> (string \<times> string) list \<Rightarrow> string" where
  "expected_hash L C pairs = hexdigest (hmac_sha256 L (derived_key L C) (encode (check_string pairs)))"

text \<open>The pairs of a payload after parsing, and the hash-excluded pairs.\<close>

definition payload_pairs :: "pylib \<Rightarrow> string \<Rightarrow> (string \<times> string) list" where
  "payload_pairs L init_data = py_dict (parse_qsl L init_data)"

definition signed_pairs :: "pylib \<Rightarrow> string \<Rightarrow> (string \<times> string) list" where
  "signed_pairs L init_data = AList.delete ''hash'' (payload_pairs L init_data)"

text \<open>
  A required field of the body after \<^verbatim>\<open>str\<close> and \<^verbatim>\<open>strip\<close>; the services
  as the specification words them (each entry trimmed, the empty ones discarded); and the
  stored row with a given \<^verbatim>\<open>public_no\<close>.
\<close>

definition required_field :: "pylib \<Rightarrow> (string \<times> json) list \<Rightarrow> string \<Rightarrow> string" where
  "required_field L kvs k = strip (py_str L (dict_get kvs k (JStr [])))"

definition trimmed_services :: "pylib \<Rightarrow> json list \<Rightarrow> string list" where
  "trimmed_services L xs = filter (\<lambda>s. s \<noteq> []) (map (\<lambda>x. strip (py_str L x)) xs)"

definition find_order :: "db \<Rightarrow> string \<Rightarrow> order_row option" where
  "find_order d pn = find (\<lambda>r. public_no r = pn) (orders d)"

text \<open>The owner identifier as \<^verbatim>\<open>me_orders\<close> reads it from the identity: \<^verbatim>\<open>int(user["id"])\<close>.\<close>

definition identity_id :: "pylib \<Rightarrow> json \<Rightarrow> exn + int" where
  "identity_id L user = (case subscript user ''id'' of Inl e \<Rightarrow> Inl e | Inr v \<Rightarrow> py_int L v)"

text \<open>
  What a stored column holds for a JSON value sent for it: the integer or the string
  itself, \<^verbatim>\<open>NULL\<close> for \<^verbatim>\<open>null\<close> and for an absent field.
\<close>

fun int_value :: "json \<Rightarrow> int option" where
  "int_value (JInt n) = Some n"
| "int_value (JBool b) = Some (if b then 1 else 0)"
| "int_value v = None"

fun text_value :: "json \<Rightarrow> string option" where
  "text_value (JStr s) = Some s"
| "text_value v = None"

text \<open>
  An entry of the response shows a stored row: it is an object with the eight keys of the
  response format, the columns under their names, \<^verbatim>\<open>services\<close> decoded from the
  stored text, and the two times in their textual form.
\<close>

definition shows_order :: "pylib \<Rightarrow> order_row \<Rightarrow> json \<Rightarrow> bool" where
  "shows_order L r entry \<longleftrightarrow>
     (case entry of
        JDict kvs \<Rightarrow>
          map fst kvs = [''public_no'', ''item'', ''services'', ''status'', ''price'', ''comment'',
                         ''created_at'', ''updated_at'']
      | _ \<Rightarrow> False) \<and>
     subscript entry ''public_no'' = Inr (JStr (public_no r)) \<and>
     subscript entry ''item'' = Inr (JStr (item r)) \<and>
     (case json_loads L (if services_json r = [] then ''[]'' else services_json r) of
        None \<Rightarrow> False
      | Some s \<Rightarrow> subscript entry ''services'' = Inr s) \<and>
     subscript entry ''status'' = Inr (JStr (status r)) \<and>
     subscript entry ''price'' = Inr (case price r of None \<Rightarrow> JNull | Some n \<Rightarrow> JInt n) \<and>
     subscript entry ''comment'' = Inr (case comment r of None \<Rightarrow> JNull | Some s \<Rightarrow> JStr s) \<and>
     subscript entry ''created_at'' = Inr (JStr (isoformat L (created_at r))) \<and>
     subscript entry ''updated_at'' = Inr (JStr (isoformat L (updated_at r)))"

subsection \<open>An instance of the library for running the model\<close>

text \<open>
  To evaluate the handlers on concrete requests the library functions need values. The
  instance below splits a query string as \<^verbatim>\<open>parse_qsl\<close> does (fields between
  \<^verbatim>\<open>&\<close>, empty fields skipped, name and value split at the first \<^verbatim>\<open>=\<close>, a field
  without \<^verbatim>\<open>=\<close> kept with a blank value, \<^verbatim>\<open>+\<close> read as a space) but decodes no
  percent-escapes; it takes a 32-byte keyed checksum for HMAC-SHA256; it decodes the few
  JSON documents the examples use by table and serialises lists of strings that need no
  escaping; it converts between integers and plain decimal digits, does not render the
  elements of lists and dictionaries, and prints a time as its number. No theorem about
  the handlers depends on these choices.
\<close>

fun split_on :: "char \<Rightarrow> string \<Rightarrow> string list" where
  "split_on c [] = [[]]"
| "split_on c (x # xs) =
     (if x = c then [] # split_on c xs
      else (case split_on c xs of [] \<Rightarrow> [[x]] | y # ys \<Rightarrow> (x # y) # ys))"

definition plus_to_space :: "string \<Rightarrow> string" where
  "plus_to_space s = map (\<lambda>c. if c = CHR ''+'' then CHR '' '' else c) s"

definition test_parse_qsl :: "string \<Rightarrow> (string \<times> string) list" where
  "test_parse_qsl qs =
     (if qs = [] then []
      else map (\<lambda>nv. (plus_to_space (takeWhile (\<lambda>c. c \<noteq> CHR ''='') nv),
                        plus_to_space (drop 1 (dropWhile (\<lambda>c. c \<noteq> CHR ''='') nv))))
               (filter (\<lambda>nv. nv \<noteq> []) (split_on CHR ''&'' qs)))"

definition test_hmac :: "byte list \<Rightarrow> byte list \<Rightarrow> byte list" where
  "test_hmac key msg =
     (let h = fold (\<lambda>b acc. 31 * acc + b) (key @ 0 # msg) 7 in map (\<lambda>i. h + of_nat i) [0..<32])"

definition test_json_loads :: "string \<Rightarrow> json option" where
  \<open>test_json_loads s = map_of
     [(''{"id":42}'', JDict [(''id'', JInt 42)]),
      (''{"name":"Ann"}'', JDict [(''name'', JStr ''Ann'')]),
      (''[]'', JList []),
      (''["wash", "iron"]'', JList [JStr ''wash'', JStr ''iron'']),
      (''{"public_no":"A-1","item":"coat","status":"new","owner_tg_id":42,"services":["  ","wash","","iron"]}'',
        JDict [(''public_no'', JStr ''A-1''), (''item'', JStr ''coat''), (''status'', JStr ''new''),
               (''owner_tg_id'', JInt 42),
               (''services'', JList [JStr ''  '', JStr ''wash'', JStr [], JStr ''iron''])]),
      (''{"public_no":" A-1 ","item":"long coat","status":"ready","price":900}'',
        JDict [(''public_no'', JStr '' A-1 ''), (''item'', JStr ''long coat''), (''status'', JStr ''ready''),
               (''price'', JInt 900)]),
      (''{"public_no":"A-2","item":"  ","status":"new"}'',
        JDict [(''public_no'', JStr ''A-2''), (''item'', JStr ''  ''), (''status'', JStr ''new'')])]
     s\<close>

definition test_json_dumps :: "json \<Rightarrow> string" where
  \<open>test_json_dumps v =
     (case v of
        JList xs \<Rightarrow>
          ''['' @ str_join '', '' (map (\<lambda>x. case x of JStr s \<Rightarrow> ''"'' @ s @ ''"'' | _ \<Rightarrow> ''null'') xs) @ '']''
      | _ \<Rightarrow> ''null'')\<close>

text \<open>The decimal digits of a number; the first argument bounds the number of digits.\<close>

fun digits_upto :: "nat \<Rightarrow> nat \<Rightarrow> string" where
  "digits_upto 0 n = []"
| "digits_upto (Suc k) n =
     (if n < 10 then [char_of (48 + n)] else digits_upto k (n div 10) @ [char_of (48 + n mod 10)])"

definition digits :: "nat \<Rightarrow> string" where
  "digits n = digits_upto (Suc n) n"

definition is_digit :: "char \<Rightarrow> bool" where
  "is_digit c \<longleftrightarrow> 48 \<le> (of_char c :: nat) \<and> (of_char c :: nat) \<le> 57"

definition test_int_of_str :: "string \<Rightarrow> int option" where
  "test_int_of_str s =
     (if s \<noteq> [] \<and> list_all is_digit s
      then Some (int (foldl (\<lambda>n c. 10 * n + (of_char c - 48)) 0 s))
      else None)"

definition test_repr :: "json \<Rightarrow> string" where
  "test_repr v =
     (case v of
        JNull \<Rightarrow> ''None''
      | JBool b \<Rightarrow> (if b then ''True'' else ''False'')
      | JInt n \<Rightarrow> (if n < 0 then ''-'' else []) @ digits (nat \<bar>n\<bar>)
      | JStr s \<Rightarrow> s
      | JList xs \<Rightarrow> ''[...]''
      | JDict kvs \<Rightarrow> ''{...}'')"

definition test_isoformat :: "timestamp \<Rightarrow> string" where
  "test_isoformat t = digits (nat t)"

definition test_lib :: pylib where
  "test_lib =
     \<lparr> parse_qsl = test_parse_qsl, hmac_sha256 = test_hmac, json_loads = test_json_loads,
       json_dumps = test_json_dumps, py_repr = test_repr, int_of_str = test_int_of_str,
       isoformat = test_isoformat \<rparr>"

definition test_config :: config where
  "test_config = \<lparr> BOT_TOKEN = ''123456:TEST'', ADMIN_API_TOKEN = ''s3cret'' \<rparr>"

subsection \<open>Example requests\<close>

text \<open>
  Payloads signed for \<open>test_config\<close> under \<open>test_lib\<close>: the example of the
  specification (the pairs \<^verbatim>\<open>auth_date=1700000000\<close> and \<^verbatim>\<open>user={"id":42}\<close>), the
  same payload with the last character of its hash changed, and a payload whose
  \<^verbatim>\<open>user\<close> is blank.
\<close>

definition example_payload :: string where
  \<open>example_payload =
     ''user={"id":42}&auth_date=1700000000&hash=f6f7f8f9fafbfcfdfeff000102030405060708090a0b0c0d0e0f101112131415''\<close>

definition tampered_payload :: string where
  \<open>tampered_payload =
     ''user={"id":42}&auth_date=1700000000&hash=f6f7f8f9fafbfcfdfeff000102030405060708090a0b0c0d0e0f101112131416''\<close>

definition blank_user_payload :: string where
  "blank_user_payload =
     ''user=&auth_date=1700000000&hash=2f303132333435363738393a3b3c3d3e3f404142434445464748494a4b4c4d4e''"

text \<open>An empty database and three request bodies for the upsert handler.\<close>

definition empty_db :: db where
  "empty_db = \<lparr> orders = [], orders_id_seq = 0 \<rparr>"

definition body_first :: string where
  \<open>body_first =
     ''{"public_no":"A-1","item":"coat","status":"new","owner_tg_id":42,"services":["  ","wash","","iron"]}''\<close>

definition body_second :: string where
  \<open>body_second = ''{"public_no":" A-1 ","item":"long coat","status":"ready","price":900}''\<close>

definition body_blank_item :: string where
  \<open>body_blank_item = ''{"public_no":"A-2","item":"  ","status":"new"}''\<close>

text \<open>
  Arguments for an upsert of the order \<^verbatim>\<open>A-1\<close>, a table with three orders, and a
  signed payload whose identity has no \<^verbatim>\<open>id\<close>.
\<close>

definition params_first :: upsert_params where
  \<open>params_first =
     \<lparr> p_public_no = ''A-1'', p_owner_tg_id = Some 42, p_owner_phone = None, p_item = ''coat'',
       p_services_json = ''["wash", "iron"]'', p_status = ''new'', p_price = None,
       p_comment = None \<rparr>\<close>

definition three_orders_db :: db where
  "three_orders_db =
     execute_upsert
       (execute_upsert
          (execute_upsert empty_db 100 params_first)
          200 (params_first \<lparr> p_public_no := ''B-7'', p_owner_tg_id := Some 7 \<rparr>))
       300 (params_first \<lparr> p_public_no := ''A-2'' \<rparr>)"

definition no_id_payload :: string where
  \<open>no_id_payload =
     ''user={"name":"Ann"}&hash=8d8e8f909192939495969798999a9b9c9d9e9fa0a1a2a3a4a5a6a7a8a9aaabac''\<close>

section \<open>Properties\<close>

subsection \<open>The check-string and the order of the checks\<close>

text \<open>
  What the verifier builds from the sorted keys is the check-string of the hash-excluded
  pairs, so its five checks can be read off in terms of \<open>expected_hash\<close>.
\<close>

lemma distinct_foldl_update:
  "distinct (map fst d) \<Longrightarrow> distinct (map fst (foldl (\<lambda>d (k, v). AList.update k v d) d ps))"
  by (induction ps arbitrary: d) (auto simp: AList.distinct_update)

lemma distinct_py_dict: "distinct (map fst (py_dict ps))"
  by (simp add: py_dict_def distinct_foldl_update)

lemma distinct_signed_pairs: "distinct (map fst (signed_pairs L s))"
  by (simp add: signed_pairs_def payload_pairs_def AList.distinct_delete distinct_py_dict)

lemma map_insort_key: "map f (insort_key f x xs) = insort (f x) (map f xs)"
  by (induction xs) auto

lemma map_sort_key: "map f (sort_key f xs) = sort (map f xs)"
  by (induction xs) (auto simp: map_insort_key)

lemma check_lines_items:
  assumes "distinct (map fst d)" and "set xs \<subseteq> set d"
  shows "check_lines d (map fst xs) = Inr (map (\<lambda>(k, v). k @ ''='' @ v) xs)"
  using assms(2)
proof (induction xs)
  case Nil
  then show ?case by simp
next
  case (Cons x xs)
  obtain k v where x: "x = (k, v)" by (cases x)
  with Cons.prems have "(k, v) \<in> set d" by simp
  with assms(1) have "map_of d k = Some v" by (rule map_of_is_SomeI)
  with Cons x show ?case by (simp add: getitem_def)
qed

lemma check_lines_sorted:
  assumes "distinct (map fst d)"
  shows "check_lines d (sort (map fst d)) = Inr (map (\<lambda>(k, v). k @ ''='' @ v) (sort_key fst d))"
proof -
  have "set (sort_key fst d) \<subseteq> set d" by simp
  with assms have "check_lines d (map fst (sort_key fst d)) =
      Inr (map (\<lambda>(k, v). k @ ''='' @ v) (sort_key fst d))"
    by (rule check_lines_items)
  then show ?thesis by (simp add: map_sort_key)
qed

text \<open>The verifier, with the check-string computed: the order of its five checks.\<close>

lemma verify_init_data_checks:
  "verify_init_data L C s =
     (if s = [] then Inl (HTTPException 401 ''Missing initData'')
      else case map_of (payload_pairs L s) ''hash'' of
        None \<Rightarrow> Inl (HTTPException 401 ''Missing hash'')
      | Some h \<Rightarrow>
          if h = [] then Inl (HTTPException 401 ''Missing hash'')
          else if expected_hash L C (signed_pairs L s) \<noteq> h
            then Inl (HTTPException 401 ''Bad signature'')
          else case map_of (payload_pairs L s) ''user'' of
            None \<Rightarrow> Inl (HTTPException 401 ''Missing user'')
          | Some u \<Rightarrow>
              if u = [] then Inl (HTTPException 401 ''Missing user'')
              else case json_loads L u of
                None \<Rightarrow> Inl (HTTPException 401 ''Bad user json'')
              | Some j \<Rightarrow> Inr j)"
proof -
  have lines: "check_lines (signed_pairs L s) (sort (map fst (signed_pairs L s))) =
      Inr (map (\<lambda>(k, v). k @ ''='' @ v) (sort_key fst (signed_pairs L s)))"
    by (rule check_lines_sorted [OF distinct_signed_pairs])
  have user: "map_of (signed_pairs L s) ''user'' = map_of (payload_pairs L s) ''user''"
    by (simp add: signed_pairs_def AList.delete_conv')
  show ?thesis
    using lines user
    by (simp add: verify_init_data_def Let_def expected_hash_def derived_key_def
        check_string_def signed_pairs_def payload_pairs_def split: option.splits)
qed

lemma length_hexdigest: "length (hexdigest bs) = 2 * length bs"
  by (induction bs) (auto simp: hexdigest_def)

lemma expected_hash_nonempty: "pylib_ok L \<Longrightarrow> expected_hash L C pairs \<noteq> []"
proof
  assume ok: "pylib_ok L" and e: "expected_hash L C pairs = []"
  have "length (expected_hash L C pairs) = 64"
    using ok by (simp add: expected_hash_def length_hexdigest pylib_ok_def)
  with e show False by simp
qed

lemma test_lib_ok: "pylib_ok test_lib"
  by (simp add: pylib_ok_def test_lib_def test_parse_qsl_def test_json_loads_def test_hmac_def)

subsection \<open>C1: a correctly signed payload is accepted\<close>

text \<open>
  C1. For every non-empty payload, parsed into pairs with the last value winning: if the
  received \<^verbatim>\<open>hash\<close> equals the hexadecimal HMAC-SHA256 of the check-string of the
  remaining pairs under the key derived from the bot token, and the remaining pairs hold a
  \<^verbatim>\<open>user\<close> whose value the JSON decoder accepts, then the verifier returns exactly
  the decoded value.
\<close>

theorem verify_accepts_signed_payload:
  assumes "pylib_ok L"
    and "init_data \<noteq> []"
    and "map_of (payload_pairs L init_data) ''hash'' = Some h"
    and "h = expected_hash L C (signed_pairs L init_data)"
    and "map_of (signed_pairs L init_data) ''user'' = Some u"
    and "json_loads L u = Some j"
  shows "verify_init_data L C init_data = Inr j"
proof -
  from assms(1,4) have "h \<noteq> []" by (simp add: expected_hash_nonempty)
  moreover from assms(1,6) have "u \<noteq> []" by (auto simp: pylib_ok_def)
  moreover from assms(5) have "map_of (payload_pairs L init_data) ''user'' = Some u"
    by (simp add: signed_pairs_def AList.delete_conv')
  ultimately show ?thesis
    using assms(2,3,4,6) by (simp add: verify_init_data_checks)
qed

text \<open>
  On the example of the specification the check-string has two lines and no trailing
  newline, and the identity returned has \<^verbatim>\<open>id\<close> 42.
\<close>

lemma example_pairs:
  \<open>payload_pairs test_lib example_payload =
     [(''user'', ''{"id":42}''), (''auth_date'', ''1700000000''),
      (''hash'', ''f6f7f8f9fafbfcfdfeff000102030405060708090a0b0c0d0e0f101112131415'')]\<close>
  by code_simp

lemma example_check_string:
  \<open>check_string (signed_pairs test_lib example_payload) =
     ''auth_date=1700000000'' @ [CHR 0x0A] @ ''user={"id":42}''\<close>
  by code_simp

lemma example_hash:
  \<open>expected_hash test_lib test_config (signed_pairs test_lib example_payload) =
     ''f6f7f8f9fafbfcfdfeff000102030405060708090a0b0c0d0e0f101112131415''\<close>
  by code_simp

theorem verify_accepts_signed_payload_witness:
  \<open>verify_init_data test_lib test_config example_payload = Inr (JDict [(''id'', JInt 42)]) \<and>
   subscript (JDict [(''id'', JInt 42)]) ''id'' = Inr (JInt 42)\<close>
proof -
  have u: \<open>map_of (signed_pairs test_lib example_payload) ''user'' = Some ''{"id":42}''\<close>
    by (simp add: signed_pairs_def example_pairs AList.delete_conv')
  have j: \<open>json_loads test_lib ''{"id":42}'' = Some (JDict [(''id'', JInt 42)])\<close>
    by (simp add: test_lib_def test_json_loads_def)
  have ne: "example_payload \<noteq> []"
    by (simp add: example_payload_def)
  have h: \<open>map_of (payload_pairs test_lib example_payload) ''hash'' =
      Some ''f6f7f8f9fafbfcfdfeff000102030405060708090a0b0c0d0e0f101112131415''\<close>
    by (simp add: example_pairs)
  show ?thesis
    using verify_accepts_signed_payload [OF test_lib_ok ne h example_hash [symmetric] u j]
    by (simp add: getitem_def)
qed

lemma keys_foldl_update:
  "fst ` set (foldl (\<lambda>d (k, v). AList.update k v d) d ps) = fst ` set d \<union> fst ` set ps"
proof (induction ps arbitrary: d)
  case Nil
  show ?case by simp
next
  case (Cons p ps)
  obtain k v where p: "p = (k, v)" by (cases p)
  have "fst ` set (foldl (\<lambda>d (k, v). AList.update k v d) (AList.update k v d) ps) =
      fst ` set (AList.update k v d) \<union> fst ` set ps"
    by (rule Cons.IH)
  also have "\<dots> = fst ` set d \<union> fst ` set (p # ps)"
    unfolding AList.dom_update p by auto
  finally show ?case by (simp add: p)
qed

lemma keys_py_dict: "fst ` set (py_dict ps) = fst ` set ps"
  by (simp add: py_dict_def keys_foldl_update)

lemma no_hash_key:
  "''hash'' \<notin> fst ` set (parse_qsl L s) \<Longrightarrow> map_of (payload_pairs L s) ''hash'' = None"
  by (simp add: payload_pairs_def map_of_eq_None_iff keys_py_dict)

subsection \<open>C4: the failure modes come in order\<close>

text \<open>
  C4. The empty payload fails with \<^verbatim>\<open>Missing initData\<close>. A non-empty payload whose
  parsed pairs have no key \<^verbatim>\<open>hash\<close> fails with \<^verbatim>\<open>Missing hash\<close>, which is not
  the error \<^verbatim>\<open>Bad signature\<close>. Whenever the verifier gets past these two checks, so
  that the signature is compared, a non-empty hash value was received.
\<close>

theorem verify_failure_order:
  "verify_init_data L C [] = Inl (HTTPException 401 ''Missing initData'') \<and>
   (s \<noteq> [] \<and> ''hash'' \<notin> fst ` set (parse_qsl L s) \<longrightarrow>
      verify_init_data L C s = Inl (HTTPException 401 ''Missing hash'') \<and>
      verify_init_data L C s \<noteq> Inl (HTTPException 401 ''Bad signature'')) \<and>
   (verify_init_data L C s \<noteq> Inl (HTTPException 401 ''Missing initData'') \<and>
    verify_init_data L C s \<noteq> Inl (HTTPException 401 ''Missing hash'') \<longrightarrow>
      (\<exists>h. h \<noteq> [] \<and> map_of (payload_pairs L s) ''hash'' = Some h))"
proof (intro conjI impI)
  show "verify_init_data L C [] = Inl (HTTPException 401 ''Missing initData'')"
    by (simp add: verify_init_data_checks)
next
  assume a: "s \<noteq> [] \<and> ''hash'' \<notin> fst ` set (parse_qsl L s)"
  then have "map_of (payload_pairs L s) ''hash'' = None" by (simp add: no_hash_key)
  with a show m: "verify_init_data L C s = Inl (HTTPException 401 ''Missing hash'')"
    by (simp add: verify_init_data_checks)
  then show "verify_init_data L C s \<noteq> Inl (HTTPException 401 ''Bad signature'')"
    by simp
next
  assume "verify_init_data L C s \<noteq> Inl (HTTPException 401 ''Missing initData'') \<and>
    verify_init_data L C s \<noteq> Inl (HTTPException 401 ''Missing hash'')"
  then show "\<exists>h. h \<noteq> [] \<and> map_of (payload_pairs L s) ''hash'' = Some h"
    by (auto simp: verify_init_data_checks split: if_splits option.splits)
qed

theorem verify_failure_order_witness:
  "verify_init_data test_lib test_config ''auth_date=1700000000&user=x'' =
     Inl (HTTPException 401 ''Missing hash'') \<and>
   verify_init_data test_lib test_config ''auth_date=1700000000&hash=00ff'' =
     Inl (HTTPException 401 ''Bad signature'') \<and>
   map_of (payload_pairs test_lib ''auth_date=1700000000&hash=00ff'') ''hash'' = Some ''00ff''"
proof -
  have p: "''auth_date=1700000000&user=x'' \<noteq> [] \<and>
      ''hash'' \<notin> fst ` set (parse_qsl test_lib ''auth_date=1700000000&user=x'')"
    by code_simp
  have v: "verify_init_data test_lib test_config ''auth_date=1700000000&hash=00ff'' =
      Inl (HTTPException 401 ''Bad signature'')"
    by code_simp
  have q: "verify_init_data test_lib test_config ''auth_date=1700000000&hash=00ff'' \<noteq>
        Inl (HTTPException 401 ''Missing initData'') \<and>
      verify_init_data test_lib test_config ''auth_date=1700000000&hash=00ff'' \<noteq>
        Inl (HTTPException 401 ''Missing hash'')"
    by (simp add: v)
  from verify_failure_order [of test_lib test_config "''auth_date=1700000000&user=x''"] p
  have 1: "verify_init_data test_lib test_config ''auth_date=1700000000&user=x'' =
      Inl (HTTPException 401 ''Missing hash'')"
    by blast
  from verify_failure_order [of test_lib test_config "''auth_date=1700000000&hash=00ff''"] q
  obtain h where "map_of (payload_pairs test_lib ''auth_date=1700000000&hash=00ff'') ''hash'' = Some h"
    by blast
  moreover have "map_of (payload_pairs test_lib ''auth_date=1700000000&hash=00ff'') ''hash'' = Some ''00ff''"
    by code_simp
  ultimately show ?thesis using 1 v by simp
qed

subsection \<open>C9: a changed hash character is a bad signature\<close>

text \<open>
  C9. Let a payload verify successfully with received hash \<open>h\<close>. Every payload that
  parses to the same pairs except that one character of the hash value is replaced by a
  different one (position \<open>i\<close> now holds \<open>c\<close>) fails with \<^verbatim>\<open>Bad signature\<close>.
\<close>

theorem verify_rejects_changed_hash:
  assumes "pylib_ok L"
    and "verify_init_data L C s = Inr j"
    and "map_of (payload_pairs L s) ''hash'' = Some h"
    and "i < length h" and "c \<noteq> h ! i"
    and "payload_pairs L s' = AList.update ''hash'' (h[i := c]) (payload_pairs L s)"
  shows "verify_init_data L C s' = Inl (HTTPException 401 ''Bad signature'')"
proof -
  from assms(2,3) have good: "expected_hash L C (signed_pairs L s) = h"
    by (auto simp: verify_init_data_checks split: if_splits option.splits)
  have same: "signed_pairs L s' = signed_pairs L s"
    by (simp add: signed_pairs_def assms(6) AList.delete_update_same)
  have recv: "map_of (payload_pairs L s') ''hash'' = Some (h[i := c])"
    by (simp add: assms(6) AList.update_conv')
  from assms(4,5) have "(h[i := c]) ! i \<noteq> h ! i" by simp
  then have differs: "h[i := c] \<noteq> h" by metis
  from assms(4) have nonempty: "h[i := c] \<noteq> []" by auto
  have "parse_qsl L s' \<noteq> []"
  proof
    assume "parse_qsl L s' = []"
    then have "payload_pairs L s' = []" by (simp add: payload_pairs_def py_dict_def)
    with recv show False by simp
  qed
  with assms(1) have "s' \<noteq> []" by (auto simp: pylib_ok_def)
  with recv nonempty differs good same show ?thesis
    by (simp add: verify_init_data_checks)
qed

theorem verify_rejects_changed_hash_witness:
  "verify_init_data test_lib test_config example_payload = Inr (JDict [(''id'', JInt 42)]) \<and>
   verify_init_data test_lib test_config tampered_payload = Inl (HTTPException 401 ''Bad signature'')"
proof -
  let ?h = "''f6f7f8f9fafbfcfdfeff000102030405060708090a0b0c0d0e0f101112131415''"
  have v: "verify_init_data test_lib test_config example_payload = Inr (JDict [(''id'', JInt 42)])"
    by code_simp
  have h: "map_of (payload_pairs test_lib example_payload) ''hash'' = Some ?h"
    by (simp add: example_pairs)
  have i: "63 < length ?h" by simp
  have c: "CHR ''6'' \<noteq> ?h ! 63" by simp
  have p: "payload_pairs test_lib tampered_payload =
      AList.update ''hash'' (?h[63 := CHR ''6'']) (payload_pairs test_lib example_payload)"
    by code_simp
  show ?thesis
    using verify_rejects_changed_hash [OF test_lib_ok v h i c p] v by simp
qed

subsection \<open>C10: a blank value counts as a missing one\<close>

text \<open>
  C10. Parsing keeps keys with blank values, but the verifier's two lookups treat a blank
  value as absent: a payload whose \<^verbatim>\<open>hash\<close> is blank fails with
  \<^verbatim>\<open>Missing hash\<close>, not \<^verbatim>\<open>Bad signature\<close>; a payload with a valid signature whose
  \<^verbatim>\<open>user\<close> is blank fails with \<^verbatim>\<open>Missing user\<close>, not \<^verbatim>\<open>Bad user json\<close>.
\<close>

theorem verify_blank_values:
  "(s \<noteq> [] \<and> map_of (payload_pairs L s) ''hash'' = Some [] \<longrightarrow>
      verify_init_data L C s = Inl (HTTPException 401 ''Missing hash'')) \<and>
   (pylib_ok L \<and> s \<noteq> [] \<and>
    map_of (payload_pairs L s) ''hash'' = Some (expected_hash L C (signed_pairs L s)) \<and>
    map_of (signed_pairs L s) ''user'' = Some [] \<longrightarrow>
      verify_init_data L C s = Inl (HTTPException 401 ''Missing user''))"
proof (intro conjI impI)
  assume "s \<noteq> [] \<and> map_of (payload_pairs L s) ''hash'' = Some []"
  then show "verify_init_data L C s = Inl (HTTPException 401 ''Missing hash'')"
    by (simp add: verify_init_data_checks)
next
  assume a: "pylib_ok L \<and> s \<noteq> [] \<and>
    map_of (payload_pairs L s) ''hash'' = Some (expected_hash L C (signed_pairs L s)) \<and>
    map_of (signed_pairs L s) ''user'' = Some []"
  then have "expected_hash L C (signed_pairs L s) \<noteq> []"
    by (simp add: expected_hash_nonempty)
  moreover from a have "map_of (payload_pairs L s) ''user'' = Some []"
    by (simp add: signed_pairs_def AList.delete_conv')
  ultimately show "verify_init_data L C s = Inl (HTTPException 401 ''Missing user'')"
    using a by (simp add: verify_init_data_checks)
qed

theorem verify_blank_values_witness:
  "verify_init_data test_lib test_config ''auth_date=1700000000&hash='' =
     Inl (HTTPException 401 ''Missing hash'') \<and>
   verify_init_data test_lib test_config blank_user_payload =
     Inl (HTTPException 401 ''Missing user'')"
proof -
  have a: "''auth_date=1700000000&hash='' \<noteq> [] \<and>
      map_of (payload_pairs test_lib ''auth_date=1700000000&hash='') ''hash'' = Some []"
    by code_simp
  have b: "blank_user_payload \<noteq> []"
    by (simp add: blank_user_payload_def)
  have c: "map_of (payload_pairs test_lib blank_user_payload) ''hash'' =
      Some (expected_hash test_lib test_config (signed_pairs test_lib blank_user_payload))"
    by code_simp
  have d: "map_of (signed_pairs test_lib blank_user_payload) ''user'' = Some []"
    by code_simp
  from verify_blank_values [of "''auth_date=1700000000&hash=''" test_lib test_config] a
  have 1: "verify_init_data test_lib test_config ''auth_date=1700000000&hash='' =
      Inl (HTTPException 401 ''Missing hash'')"
    by blast
  from verify_blank_values [of blank_user_payload test_lib test_config] test_lib_ok b c d
  have "verify_init_data test_lib test_config blank_user_payload =
      Inl (HTTPException 401 ''Missing user'')"
    by blast
  with 1 show ?thesis by simp
qed

lemma py_iter_error: "py_iter v = Inl e \<Longrightarrow> e = TypeError"
  by (cases v) auto

lemma upsert_fields_error:
  "upsert_fields L body = Inl e \<Longrightarrow>
     e = HTTPException 400 ''public_no required'' \<or> e = HTTPException 400 ''item/status required'' \<or>
     e = AttributeError \<or> e = TypeError"
  by (cases body)
    (auto simp: upsert_fields_def Let_def dest: py_iter_error split: if_splits sum.splits)

lemma int_param_error: "int_param b v = Inl e \<Longrightarrow> e = DataError"
  by (cases v) (auto simp: int_arg_def split: if_splits sum.splits)

lemma str_param_error: "str_param s = Inl e \<Longrightarrow> e = DataError"
  by (auto simp: str_param_def split: if_splits)

lemma text_param_error: "text_param v = Inl e \<Longrightarrow> e = DataError"
  by (cases v) (auto dest: str_param_error split: sum.splits)

lemma encode_args_error: "encode_args c = Inl e \<Longrightarrow> e = DataError"
  by (auto simp: encode_args_def dest: int_param_error str_param_error text_param_error
      split: sum.splits)

lemma admin_upsert_bad_token:
  "tok \<noteq> ADMIN_API_TOKEN C \<Longrightarrow>
     admin_upsert L C pool now req tok = (Inl (HTTPException 401 ''Bad admin token''), pool)"
  by (simp add: admin_upsert_def require_admin_def)

lemma admin_upsert_good_token_error:
  assumes "admin_upsert L C pool now req (ADMIN_API_TOKEN C) = (Inl e, pool')"
  shows "status_code e = 400 \<or> status_code e = 500"
  using assms
  by (auto simp: admin_upsert_def require_admin_def require_pool_def
      dest!: upsert_fields_error encode_args_error split: option.splits sum.splits)

lemma admin_upsert_failure_no_write:
  "fst (admin_upsert L C pool now req tok) = Inl e \<Longrightarrow> snd (admin_upsert L C pool now req tok) = pool"
  by (auto simp: admin_upsert_def split: option.splits sum.splits)

subsection \<open>C7: the admin token is compared exactly\<close>

text \<open>
  C7. The upsert handler answers 401 if and only if the header token differs from the
  configured admin token. On a mismatch the answer is \<^verbatim>\<open>Bad admin token\<close> whatever
  the request body is and whatever the JSON decoder would make of it, and the database is
  left as it was.
\<close>

theorem admin_token_exact:
  "((\<exists>e. fst (admin_upsert L C pool now req tok) = Inl e \<and> status_code e = 401) \<longleftrightarrow>
      tok \<noteq> ADMIN_API_TOKEN C) \<and>
   (tok \<noteq> ADMIN_API_TOKEN C \<longrightarrow>
      admin_upsert L C pool now req tok = (Inl (HTTPException 401 ''Bad admin token''), pool))"
proof (intro conjI impI iffI)
  assume "tok \<noteq> ADMIN_API_TOKEN C"
  then show "\<exists>e. fst (admin_upsert L C pool now req tok) = Inl e \<and> status_code e = 401"
    by (simp add: admin_upsert_bad_token)
next
  assume "tok \<noteq> ADMIN_API_TOKEN C"
  then show "admin_upsert L C pool now req tok = (Inl (HTTPException 401 ''Bad admin token''), pool)"
    by (rule admin_upsert_bad_token)
next
  assume "\<exists>e. fst (admin_upsert L C pool now req tok) = Inl e \<and> status_code e = 401"
  then obtain e where e: "fst (admin_upsert L C pool now req tok) = Inl e" "status_code e = 401"
    by blast
  show "tok \<noteq> ADMIN_API_TOKEN C"
  proof
    assume "tok = ADMIN_API_TOKEN C"
    with e(1) have "admin_upsert L C pool now req (ADMIN_API_TOKEN C) =
        (Inl e, snd (admin_upsert L C pool now req (ADMIN_API_TOKEN C)))"
      by (metis prod.collapse)
    then have "status_code e = 400 \<or> status_code e = 500"
      by (rule admin_upsert_good_token_error)
    with e(2) show False by simp
  qed
qed

theorem admin_token_exact_witness:
  "admin_upsert test_lib test_config (Some empty_db) 100 body_first ''s3creT'' =
     (Inl (HTTPException 401 ''Bad admin token''), Some empty_db) \<and>
   length ''s3creT'' = length (ADMIN_API_TOKEN test_config) \<and>
   fst (admin_upsert test_lib test_config (Some empty_db) 100 body_first ''s3cret'') = Inr OK"
proof -
  have ne: "''s3creT'' \<noteq> ADMIN_API_TOKEN test_config"
    by (simp add: test_config_def)
  have ok: "fst (admin_upsert test_lib test_config (Some empty_db) 100 body_first ''s3cret'') = Inr OK"
    by code_simp
  from admin_token_exact [of test_lib test_config "Some empty_db" 100 body_first "''s3creT''"] ne
  have "admin_upsert test_lib test_config (Some empty_db) 100 body_first ''s3creT'' =
      (Inl (HTTPException 401 ''Bad admin token''), Some empty_db)"
    by blast
  with ok show ?thesis by (simp add: test_config_def)
qed

subsection \<open>C6: required fields\<close>

lemma upsert_fields_dict:
  "upsert_fields L (JDict kvs) =
     (if required_field L kvs ''public_no'' = [] then Inl (HTTPException 400 ''public_no required'')
      else if required_field L kvs ''item'' = [] \<or> required_field L kvs ''status'' = []
        then Inl (HTTPException 400 ''item/status required'')
      else case py_iter (if truthy (dict_get kvs ''services'' JNull)
                         then dict_get kvs ''services'' JNull else JList []) of
        Inl e \<Rightarrow> Inl e
      | Inr xs \<Rightarrow>
          Inr \<lparr> c_public_no = required_field L kvs ''public_no'',
                c_owner_tg_id = dict_get kvs ''owner_tg_id'' JNull,
                c_owner_phone = dict_get kvs ''owner_phone'' JNull,
                c_item = required_field L kvs ''item'',
                c_services_json = json_dumps L (JList (map JStr (clean_services L xs))),
                c_status = required_field L kvs ''status'',
                c_price = dict_get kvs ''price'' JNull,
                c_comment = dict_get kvs ''comment'' JNull \<rparr>)"
  unfolding upsert_fields_def required_field_def Let_def by simp

text \<open>
  C6. With the correct admin token and a body that decodes to a JSON object, the upsert
  handler answers 400 if and only if \<^verbatim>\<open>public_no\<close>, \<^verbatim>\<open>item\<close> or
  \<^verbatim>\<open>status\<close> is empty after trimming (an absent field counts as empty). Whenever the
  handler fails, with 400 or otherwise, the database is the one it was called with.
\<close>

theorem upsert_required_fields:
  assumes "json_loads L req = Some (JDict kvs)"
  shows "((\<exists>e. fst (admin_upsert L C pool now req (ADMIN_API_TOKEN C)) = Inl e \<and> status_code e = 400) \<longleftrightarrow>
            required_field L kvs ''public_no'' = [] \<or> required_field L kvs ''item'' = [] \<or>
            required_field L kvs ''status'' = []) \<and>
         (\<forall>e. fst (admin_upsert L C pool now req (ADMIN_API_TOKEN C)) = Inl e \<longrightarrow>
            snd (admin_upsert L C pool now req (ADMIN_API_TOKEN C)) = pool)"
proof (intro conjI allI impI)
  show "(\<exists>e. fst (admin_upsert L C pool now req (ADMIN_API_TOKEN C)) = Inl e \<and> status_code e = 400) \<longleftrightarrow>
      required_field L kvs ''public_no'' = [] \<or> required_field L kvs ''item'' = [] \<or>
      required_field L kvs ''status'' = []"
    using assms
    by (auto simp: admin_upsert_def require_admin_def require_pool_def upsert_fields_dict
        dest!: py_iter_error encode_args_error split: option.splits sum.splits if_splits)
next
  fix e
  assume "fst (admin_upsert L C pool now req (ADMIN_API_TOKEN C)) = Inl e"
  then show "snd (admin_upsert L C pool now req (ADMIN_API_TOKEN C)) = pool"
    by (rule admin_upsert_failure_no_write)
qed

theorem upsert_required_fields_witness:
  "admin_upsert test_lib test_config (Some empty_db) 100 body_blank_item ''s3cret'' =
     (Inl (HTTPException 400 ''item/status required''), Some empty_db)"
proof -
  have j: \<open>json_loads test_lib body_blank_item =
      Some (JDict [(''public_no'', JStr ''A-2''), (''item'', JStr ''  ''), (''status'', JStr ''new'')])\<close>
    by code_simp
  have f: "required_field test_lib
      [(''public_no'', JStr ''A-2''), (''item'', JStr ''  ''), (''status'', JStr ''new'')] ''item'' = []"
    by code_simp
  have t: "ADMIN_API_TOKEN test_config = ''s3cret''"
    by (simp add: test_config_def)
  from upsert_required_fields [OF j, of test_config "Some empty_db" 100] f
  obtain e where e: "fst (admin_upsert test_lib test_config (Some empty_db) 100 body_blank_item
        (ADMIN_API_TOKEN test_config)) = Inl e" "status_code e = 400"
      and s: "snd (admin_upsert test_lib test_config (Some empty_db) 100 body_blank_item
        (ADMIN_API_TOKEN test_config)) = Some empty_db"
    by blast
  have "fst (admin_upsert test_lib test_config (Some empty_db) 100 body_blank_item ''s3cret'') =
      Inl (HTTPException 400 ''item/status required'')"
    by code_simp
  with s show ?thesis by (simp add: t prod_eq_iff)
qed

subsection \<open>Facts about the upsert statement\<close>

lemma public_no_update_row [simp]: "public_no (update_row now a r) = public_no r"
  by (simp add: update_row_def)

lemma public_no_insert_row [simp]: "public_no (insert_row i now a) = p_public_no a"
  by (simp add: insert_row_def)

lemma map_public_no_update:
  "map public_no (map (\<lambda>r. if public_no r = pn then update_row now a r else r) rows) =
     map public_no rows"
  by (induction rows) auto

lemma unique_public_no_upsert:
  "unique_public_no d \<Longrightarrow> unique_public_no (execute_upsert d now a)"
  by (auto simp: unique_public_no_def execute_upsert_def Let_def map_public_no_update
      simp del: map_map)

lemma find_update_rows:
  "find (\<lambda>r. public_no r = pn) (map (\<lambda>r. if public_no r = pn then update_row now a r else r) rows) =
     map_option (update_row now a) (find (\<lambda>r. public_no r = pn) rows)"
  by (induction rows) auto

lemma find_snoc:
  "find P (xs @ [x]) = (case find P xs of None \<Rightarrow> (if P x then Some x else None) | Some y \<Rightarrow> Some y)"
  by (induction xs) auto

lemma find_order_None: "find_order d pn = None \<longleftrightarrow> pn \<notin> set (map public_no (orders d))"
  by (auto simp: find_order_def find_None_iff)

lemma find_order_upsert:
  "find_order (execute_upsert d now a) (p_public_no a) =
     Some (case find_order d (p_public_no a) of
             None \<Rightarrow> insert_row (orders_id_seq d + 1) now a
           | Some r \<Rightarrow> update_row now a r)"
proof (cases "find_order d (p_public_no a)")
  case None
  then have "p_public_no a \<notin> set (map public_no (orders d))"
    by (simp add: find_order_None)
  with None show ?thesis
    by (simp add: execute_upsert_def Let_def find_order_def find_snoc)
next
  case (Some r)
  then have "p_public_no a \<in> set (map public_no (orders d))"
    using find_order_None [of d "p_public_no a"] by simp
  with Some show ?thesis
    by (simp add: execute_upsert_def Let_def find_order_def find_update_rows)
qed

lemma count_unique:
  "distinct (map f xs) \<Longrightarrow> y \<in> set (map f xs) \<Longrightarrow> length (filter (\<lambda>x. f x = y) xs) = 1"
proof (induction xs)
  case Nil
  then show ?case by simp
next
  case (Cons x xs)
  show ?case
  proof (cases "f x = y")
    case True
    from Cons.prems(1) have "f x \<notin> f ` set xs" by simp
    with True have "\<forall>z \<in> set xs. f z \<noteq> y" by blast
    then have "filter (\<lambda>x. f x = y) xs = []" by (simp add: filter_empty_conv)
    with True show ?thesis by simp
  next
    case False
    with Cons show ?thesis by auto
  qed
qed

lemma clean_services_trimmed: "clean_services L xs = trimmed_services L xs"
  by (simp add: clean_services_def trimmed_services_def filter_map comp_def)

subsection \<open>C5: how the services are stored\<close>

text \<open>
  C5. When an upsert succeeds on a body whose \<^verbatim>\<open>services\<close> is a sequence, the row
  stored under the call's \<^verbatim>\<open>public_no\<close> holds, as \<^verbatim>\<open>services_json\<close>, the JSON
  array of the entries trimmed, the empty ones discarded, the others in the order
  submitted, duplicates included.
\<close>

theorem upsert_stores_trimmed_services:
  assumes "admin_upsert L C pool now req tok = (Inr r, pool')"
    and "json_loads L req = Some (JDict kvs)"
    and "map_of kvs ''services'' = Some (JList xs)"
  shows "\<exists>d' row. pool' = Some d' \<and>
           find_order d' (required_field L kvs ''public_no'') = Some row \<and>
           services_json row = json_dumps L (JList (map JStr (trimmed_services L xs)))"
proof -
  have it: "py_iter (if truthy (dict_get kvs ''services'' JNull)
      then dict_get kvs ''services'' JNull else JList []) = Inr xs"
    using assms(3) by (simp add: dict_get_def)
  from assms(1,2) obtain c p a where
      c: "upsert_fields L (JDict kvs) = Inr c" and
      p: "pool = Some p" and
      a: "encode_args c = Inr a" and
      d': "pool' = Some (execute_upsert p now a)"
    by (auto simp: admin_upsert_def require_pool_def split: option.splits sum.splits)
  from c it have cp: "c_public_no c = required_field L kvs ''public_no''"
      and cs: "c_services_json c = json_dumps L (JList (map JStr (trimmed_services L xs)))"
    by (auto simp: upsert_fields_dict clean_services_trimmed split: if_splits)
  from a have ap: "p_public_no a = c_public_no c" and as: "p_services_json a = c_services_json c"
    by (auto simp: encode_args_def str_param_def split: sum.splits if_splits)
  have "find_order (execute_upsert p now a) (p_public_no a) =
      Some (case find_order p (p_public_no a) of
              None \<Rightarrow> insert_row (orders_id_seq p + 1) now a
            | Some r \<Rightarrow> update_row now a r)"
    by (rule find_order_upsert)
  moreover have "services_json (case find_order p (p_public_no a) of
              None \<Rightarrow> insert_row (orders_id_seq p + 1) now a
            | Some r \<Rightarrow> update_row now a r) = p_services_json a"
    by (simp add: insert_row_def update_row_def split: option.splits)
  ultimately show ?thesis
    using d' cp cs ap as by simp
qed

theorem upsert_stores_trimmed_services_witness:
  \<open>\<exists>d' row. snd (admin_upsert test_lib test_config (Some empty_db) 100 body_first ''s3cret'') = Some d' \<and>
     find_order d' ''A-1'' = Some row \<and> services_json row = ''["wash", "iron"]''\<close>
proof -
  let ?kvs = "[(''public_no'', JStr ''A-1''), (''item'', JStr ''coat''), (''status'', JStr ''new''),
               (''owner_tg_id'', JInt 42),
               (''services'', JList [JStr ''  '', JStr ''wash'', JStr [], JStr ''iron''])]"
  have j: "json_loads test_lib body_first = Some (JDict ?kvs)"
    by code_simp
  have s: "map_of ?kvs ''services'' = Some (JList [JStr ''  '', JStr ''wash'', JStr [], JStr ''iron''])"
    by simp
  have r: "admin_upsert test_lib test_config (Some empty_db) 100 body_first ''s3cret'' =
      (Inr OK, snd (admin_upsert test_lib test_config (Some empty_db) 100 body_first ''s3cret''))"
    by code_simp
  have p: "required_field test_lib ?kvs ''public_no'' = ''A-1''"
    by code_simp
  have t: \<open>json_dumps test_lib (JList (map JStr
      (trimmed_services test_lib [JStr ''  '', JStr ''wash'', JStr [], JStr ''iron'']))) =
      ''["wash", "iron"]''\<close>
    by code_simp
  from upsert_stores_trimmed_services [OF r j s] show ?thesis
    by (simp only: p t)
qed

subsection \<open>C2: two upserts of one order\<close>

text \<open>The statement alone, run twice with the same \<^verbatim>\<open>public_no\<close>.\<close>

lemma execute_upsert_twice:
  assumes "unique_public_no d" and "p_public_no a1 = pn" and "p_public_no a2 = pn"
  shows "let d1 = execute_upsert d t1 a1; d2 = execute_upsert d1 t2 a2 in
     length (filter (\<lambda>r. public_no r = pn) (orders d2)) = 1 \<and>
     (\<exists>r1 r2. find_order d1 pn = Some r1 \<and> find_order d2 pn = Some r2 \<and>
        owner_tg_id r2 = p_owner_tg_id a2 \<and> owner_phone r2 = p_owner_phone a2 \<and>
        item r2 = p_item a2 \<and> services_json r2 = p_services_json a2 \<and>
        status r2 = p_status a2 \<and> price r2 = p_price a2 \<and> comment r2 = p_comment a2 \<and>
        created_at r2 = created_at r1 \<and> updated_at r1 = t1 \<and> updated_at r2 = t2 \<and>
        (case find_order d pn of None \<Rightarrow> created_at r1 = t1
         | Some r0 \<Rightarrow> created_at r1 = created_at r0))"
proof -
  define d1 where "d1 = execute_upsert d t1 a1"
  define d2 where "d2 = execute_upsert d1 t2 a2"
  define r1 where "r1 = (case find_order d pn of
      None \<Rightarrow> insert_row (orders_id_seq d + 1) t1 a1 | Some r \<Rightarrow> update_row t1 a1 r)"
  have f1: "find_order d1 pn = Some r1"
    using find_order_upsert [of d t1 a1] assms(2) by (simp add: d1_def r1_def)
  have f2: "find_order d2 pn = Some (update_row t2 a2 r1)"
    using find_order_upsert [of d1 t2 a2] assms(3) f1 by (simp add: d2_def)
  have "unique_public_no d2"
    using assms(1) by (simp add: d1_def d2_def unique_public_no_upsert)
  moreover from f2 have "pn \<in> set (map public_no (orders d2))"
    using find_order_None [of d2 pn] by simp
  ultimately have one: "length (filter (\<lambda>r. public_no r = pn) (orders d2)) = 1"
    unfolding unique_public_no_def by (rule count_unique)
  have c1: "case find_order d pn of None \<Rightarrow> created_at r1 = t1
      | Some r0 \<Rightarrow> created_at r1 = created_at r0"
    by (simp add: r1_def insert_row_def update_row_def split: option.splits)
  have u1: "updated_at r1 = t1"
    by (simp add: r1_def insert_row_def update_row_def split: option.splits)
  have "owner_tg_id (update_row t2 a2 r1) = p_owner_tg_id a2 \<and>
      owner_phone (update_row t2 a2 r1) = p_owner_phone a2 \<and>
      item (update_row t2 a2 r1) = p_item a2 \<and>
      services_json (update_row t2 a2 r1) = p_services_json a2 \<and>
      status (update_row t2 a2 r1) = p_status a2 \<and> price (update_row t2 a2 r1) = p_price a2 \<and>
      comment (update_row t2 a2 r1) = p_comment a2 \<and>
      created_at (update_row t2 a2 r1) = created_at r1 \<and> updated_at (update_row t2 a2 r1) = t2"
    by (simp add: update_row_def)
  with one f1 f2 c1 u1 show ?thesis
    unfolding Let_def d1_def [symmetric] d2_def [symmetric] by blast
qed

lemma unique_empty_db: "unique_public_no empty_db"
  by (simp add: unique_public_no_def empty_db_def)

text \<open>
  What a successful call of the handler has done: it ran the statement once, on the
  database it was given, with arguments taken field by field from the body.
\<close>

lemma int_param_value: "int_param b v = Inr x \<Longrightarrow> x = int_value v"
  by (cases v) (auto simp: int_arg_def split: if_splits)

lemma text_param_value: "text_param v = Inr x \<Longrightarrow> x = text_value v"
  by (cases v) (auto simp: str_param_def split: if_splits)

lemma encode_args_fields:
  assumes "encode_args c = Inr a"
  shows "p_public_no a = c_public_no c \<and> p_item a = c_item c \<and>
     p_services_json a = c_services_json c \<and> p_status a = c_status c \<and>
     p_owner_tg_id a = int_value (c_owner_tg_id c) \<and>
     p_owner_phone a = text_value (c_owner_phone c) \<and>
     p_price a = int_value (c_price c) \<and> p_comment a = text_value (c_comment c)"
proof -
  from assms obtain a1 a2 a3 a4 a5 a6 a7 a8 where
      s: "str_param (c_public_no c) = Inr a1" "str_param (c_item c) = Inr a4"
         "str_param (c_services_json c) = Inr a5" "str_param (c_status c) = Inr a6" and
      i: "int_param 64 (c_owner_tg_id c) = Inr a2" "int_param 32 (c_price c) = Inr a7" and
      t: "text_param (c_owner_phone c) = Inr a3" "text_param (c_comment c) = Inr a8" and
      a: "a = \<lparr> p_public_no = a1, p_owner_tg_id = a2, p_owner_phone = a3, p_item = a4,
              p_services_json = a5, p_status = a6, p_price = a7, p_comment = a8 \<rparr>"
    by (auto simp: encode_args_def split: sum.splits)
  from s have "a1 = c_public_no c" "a4 = c_item c" "a5 = c_services_json c" "a6 = c_status c"
    by (auto simp: str_param_def split: if_splits)
  moreover from i have "a2 = int_value (c_owner_tg_id c)" "a7 = int_value (c_price c)"
    by (auto dest: int_param_value)
  moreover from t have "a3 = text_value (c_owner_phone c)" "a8 = text_value (c_comment c)"
    by (auto dest: text_param_value)
  ultimately show ?thesis by (simp add: a)
qed

lemma admin_upsert_success:
  assumes "admin_upsert L C pool now req tok = (Inr ok, pool')"
    and "json_loads L req = Some (JDict kvs)"
  shows "\<exists>p a. pool = Some p \<and> pool' = Some (execute_upsert p now a) \<and>
     p_public_no a = required_field L kvs ''public_no'' \<and> p_public_no a \<noteq> [] \<and>
     p_owner_tg_id a = int_value (dict_get kvs ''owner_tg_id'' JNull) \<and>
     p_owner_phone a = text_value (dict_get kvs ''owner_phone'' JNull) \<and>
     p_item a = required_field L kvs ''item'' \<and>
     (\<forall>xs. map_of kvs ''services'' = Some (JList xs) \<longrightarrow>
        p_services_json a = json_dumps L (JList (map JStr (trimmed_services L xs)))) \<and>
     (map_of kvs ''services'' = None \<longrightarrow> p_services_json a = json_dumps L (JList [])) \<and>
     p_status a = required_field L kvs ''status'' \<and>
     p_price a = int_value (dict_get kvs ''price'' JNull) \<and>
     p_comment a = text_value (dict_get kvs ''comment'' JNull)"
proof -
  from assms obtain c p a where
      c: "upsert_fields L (JDict kvs) = Inr c" and
      p: "pool = Some p" and
      a: "encode_args c = Inr a" and
      w: "pool' = Some (execute_upsert p now a)"
    by (auto simp: admin_upsert_def require_pool_def split: option.splits sum.splits)
  from c obtain ys where
      ne: "required_field L kvs ''public_no'' \<noteq> []" and
      it: "py_iter (if truthy (dict_get kvs ''services'' JNull)
             then dict_get kvs ''services'' JNull else JList []) = Inr ys" and
      cd: "c = \<lparr> c_public_no = required_field L kvs ''public_no'',
                c_owner_tg_id = dict_get kvs ''owner_tg_id'' JNull,
                c_owner_phone = dict_get kvs ''owner_phone'' JNull,
                c_item = required_field L kvs ''item'',
                c_services_json = json_dumps L (JList (map JStr (clean_services L ys))),
                c_status = required_field L kvs ''status'',
                c_price = dict_get kvs ''price'' JNull,
                c_comment = dict_get kvs ''comment'' JNull \<rparr>"
    by (auto simp: upsert_fields_dict split: if_splits sum.splits)
  have l: "\<forall>xs. map_of kvs ''services'' = Some (JList xs) \<longrightarrow> ys = xs"
    using it by (auto simp: dict_get_def split: if_splits)
  have n: "map_of kvs ''services'' = None \<longrightarrow> ys = []"
    using it by (auto simp: dict_get_def)
  have e: "trimmed_services L [] = []"
    by (simp add: trimmed_services_def)
  from encode_args_fields [OF a] cd ne l n e p w show ?thesis
    by (auto simp: clean_services_trimmed)
qed

text \<open>
  C2. Take a table that satisfies the uniqueness constraint and two requests to the upsert
  handler, one after the other, both successful, whose \<^verbatim>\<open>public_no\<close> is the same
  after trimming. That \<^verbatim>\<open>public_no\<close> is not empty. Afterwards exactly one row has
  it; \<^verbatim>\<open>owner_tg_id\<close>, \<^verbatim>\<open>owner_phone\<close>, \<^verbatim>\<open>item\<close>, \<^verbatim>\<open>status\<close>,
  \<^verbatim>\<open>price\<close> and \<^verbatim>\<open>comment\<close> of the row are the values in the body of the second
  request, and its services are those of the second request, trimmed and serialised; its
  \<^verbatim>\<open>created_at\<close> is the one it had after the first request (the time of the first
  request if that request inserted the row, the older value otherwise); and
  \<^verbatim>\<open>updated_at\<close> is the time of the first request after the first and the time of the
  second after the second.
\<close>

theorem upsert_twice:
  assumes "unique_public_no d"
    and "json_loads L req1 = Some (JDict kvs1)"
    and "json_loads L req2 = Some (JDict kvs2)"
    and "required_field L kvs1 ''public_no'' = pn"
    and "required_field L kvs2 ''public_no'' = pn"
    and "admin_upsert L C (Some d) t1 req1 tok1 = (Inr ok1, pool1)"
    and "admin_upsert L C pool1 t2 req2 tok2 = (Inr ok2, pool2)"
  shows "pn \<noteq> [] \<and>
     (\<exists>d1 d2 r1 r2. pool1 = Some d1 \<and> pool2 = Some d2 \<and>
        length (filter (\<lambda>r. public_no r = pn) (orders d2)) = 1 \<and>
        find_order d1 pn = Some r1 \<and> find_order d2 pn = Some r2 \<and>
        owner_tg_id r2 = int_value (dict_get kvs2 ''owner_tg_id'' JNull) \<and>
        owner_phone r2 = text_value (dict_get kvs2 ''owner_phone'' JNull) \<and>
        item r2 = required_field L kvs2 ''item'' \<and>
        (\<forall>xs. map_of kvs2 ''services'' = Some (JList xs) \<longrightarrow>
           services_json r2 = json_dumps L (JList (map JStr (trimmed_services L xs)))) \<and>
        (map_of kvs2 ''services'' = None \<longrightarrow> services_json r2 = json_dumps L (JList [])) \<and>
        status r2 = required_field L kvs2 ''status'' \<and>
        price r2 = int_value (dict_get kvs2 ''price'' JNull) \<and>
        comment r2 = text_value (dict_get kvs2 ''comment'' JNull) \<and>
        created_at r2 = created_at r1 \<and> updated_at r1 = t1 \<and> updated_at r2 = t2 \<and>
        (case find_order d pn of None \<Rightarrow> created_at r1 = t1
         | Some r0 \<Rightarrow> created_at r1 = created_at r0))"
proof -
  from admin_upsert_success [OF assms(6,2)] assms(4) obtain a1 where
      p1: "pool1 = Some (execute_upsert d t1 a1)" and k1: "p_public_no a1 = pn" and ne: "pn \<noteq> []"
    by auto
  from admin_upsert_success [OF assms(7,3)] assms(5) p1 obtain a2 where
      p2: "pool2 = Some (execute_upsert (execute_upsert d t1 a1) t2 a2)" and
      k2: "p_public_no a2 = pn" and
      v: "p_owner_tg_id a2 = int_value (dict_get kvs2 ''owner_tg_id'' JNull)"
         "p_owner_phone a2 = text_value (dict_get kvs2 ''owner_phone'' JNull)"
         "p_item a2 = required_field L kvs2 ''item''"
         "\<forall>xs. map_of kvs2 ''services'' = Some (JList xs) \<longrightarrow>
            p_services_json a2 = json_dumps L (JList (map JStr (trimmed_services L xs)))"
         "map_of kvs2 ''services'' = None \<longrightarrow> p_services_json a2 = json_dumps L (JList [])"
         "p_status a2 = required_field L kvs2 ''status''"
         "p_price a2 = int_value (dict_get kvs2 ''price'' JNull)"
         "p_comment a2 = text_value (dict_get kvs2 ''comment'' JNull)"
    by auto
  from execute_upsert_twice [OF assms(1) k1 k2, of t1 t2] obtain r1 r2 where
      r: "length (filter (\<lambda>r. public_no r = pn)
            (orders (execute_upsert (execute_upsert d t1 a1) t2 a2))) = 1"
         "find_order (execute_upsert d t1 a1) pn = Some r1"
         "find_order (execute_upsert (execute_upsert d t1 a1) t2 a2) pn = Some r2"
         "owner_tg_id r2 = p_owner_tg_id a2" "owner_phone r2 = p_owner_phone a2"
         "item r2 = p_item a2" "services_json r2 = p_services_json a2"
         "status r2 = p_status a2" "price r2 = p_price a2" "comment r2 = p_comment a2"
         "created_at r2 = created_at r1" "updated_at r1 = t1" "updated_at r2 = t2"
         "case find_order d pn of None \<Rightarrow> created_at r1 = t1
          | Some r0 \<Rightarrow> created_at r1 = created_at r0"
    unfolding Let_def by blast
  show ?thesis
  proof (intro conjI exI)
    show "pn \<noteq> []" by (rule ne)
    show "pool1 = Some (execute_upsert d t1 a1)" by (rule p1)
    show "pool2 = Some (execute_upsert (execute_upsert d t1 a1) t2 a2)" by (rule p2)
  qed (use r v in simp_all)
qed

text \<open>
  Two requests for the order \<^verbatim>\<open>A-1\<close> on the empty table; the second names it as
  \<^verbatim>\<open>" A-1 "\<close>, which is trimmed to the key of the first, and changes item, status and
  price.
\<close>

lemma upsert_twice_by_requests:
  \<open>admin_upsert test_lib test_config
     (snd (admin_upsert test_lib test_config (Some empty_db) 100 body_first ''s3cret''))
     250 body_second ''s3cret'' =
    (Inr OK,
     Some \<lparr> orders =
       [\<lparr> row_id = 1, public_no = ''A-1'', owner_tg_id = None, owner_phone = None,
          item = ''long coat'', services_json = ''[]'', status = ''ready'', price = Some 900,
          comment = None, is_closed = False, created_at = 100, updated_at = 250 \<rparr>],
       orders_id_seq = 2 \<rparr>)\<close>
  by code_simp

theorem upsert_twice_witness:
  \<open>\<exists>d2 r2.
     admin_upsert test_lib test_config
       (snd (admin_upsert test_lib test_config (Some empty_db) 100 body_first ''s3cret''))
       250 body_second ''s3cret'' = (Inr OK, Some d2) \<and>
     length (filter (\<lambda>r. public_no r = ''A-1'') (orders d2)) = 1 \<and>
     find_order d2 ''A-1'' = Some r2 \<and>
     item r2 = ''long coat'' \<and> status r2 = ''ready'' \<and> price r2 = Some 900 \<and>
     owner_tg_id r2 = None \<and> services_json r2 = ''[]'' \<and>
     created_at r2 = 100 \<and> updated_at r2 = 250\<close>
proof -
  let ?kvs1 = "[(''public_no'', JStr ''A-1''), (''item'', JStr ''coat''), (''status'', JStr ''new''),
               (''owner_tg_id'', JInt 42),
               (''services'', JList [JStr ''  '', JStr ''wash'', JStr [], JStr ''iron''])]"
  let ?kvs2 = "[(''public_no'', JStr '' A-1 ''), (''item'', JStr ''long coat''),
               (''status'', JStr ''ready''), (''price'', JInt 900)]"
  let ?pool1 = "snd (admin_upsert test_lib test_config (Some empty_db) 100 body_first ''s3cret'')"
  have j1: "json_loads test_lib body_first = Some (JDict ?kvs1)"
    by code_simp
  have j2: "json_loads test_lib body_second = Some (JDict ?kvs2)"
    by code_simp
  have k1: "required_field test_lib ?kvs1 ''public_no'' = ''A-1''"
    by code_simp
  have k2: "required_field test_lib ?kvs2 ''public_no'' = ''A-1''"
    by code_simp
  have c1: "admin_upsert test_lib test_config (Some empty_db) 100 body_first ''s3cret'' =
      (Inr OK, ?pool1)"
    by code_simp
  have c2: "admin_upsert test_lib test_config ?pool1 250 body_second ''s3cret'' =
      (Inr OK, snd (admin_upsert test_lib test_config ?pool1 250 body_second ''s3cret''))"
    by (simp add: upsert_twice_by_requests)
  have f: "required_field test_lib ?kvs2 ''item'' = ''long coat''"
      "required_field test_lib ?kvs2 ''status'' = ''ready''"
      "int_value (dict_get ?kvs2 ''price'' JNull) = Some 900"
      "int_value (dict_get ?kvs2 ''owner_tg_id'' JNull) = None"
      "map_of ?kvs2 ''services'' = None"
      "json_dumps test_lib (JList []) = ''[]''"
      "find_order empty_db ''A-1'' = None"
    by code_simp+
  from upsert_twice [OF unique_empty_db j1 j2 k1 k2 c1 c2] obtain d1 d2 r1 r2 where
      r: "snd (admin_upsert test_lib test_config ?pool1 250 body_second ''s3cret'') = Some d2"
         "length (filter (\<lambda>r. public_no r = ''A-1'') (orders d2)) = 1"
         "find_order d1 ''A-1'' = Some r1" "find_order d2 ''A-1'' = Some r2"
         "owner_tg_id r2 = int_value (dict_get ?kvs2 ''owner_tg_id'' JNull)"
         "item r2 = required_field test_lib ?kvs2 ''item''"
         "map_of ?kvs2 ''services'' = None \<longrightarrow> services_json r2 = json_dumps test_lib (JList [])"
         "status r2 = required_field test_lib ?kvs2 ''status''"
         "price r2 = int_value (dict_get ?kvs2 ''price'' JNull)"
         "created_at r2 = created_at r1" "updated_at r2 = 250"
         "case find_order empty_db ''A-1'' of None \<Rightarrow> created_at r1 = 100
          | Some r0 \<Rightarrow> created_at r1 = created_at r0"
    by (elim conjE exE) (rule that; assumption)
  from r(12) have "created_at r1 = 100" by (simp only: f(7) option.case)
  with r f c2 show ?thesis by (intro exI [of _ d2] exI [of _ r2]) simp
qed

subsection \<open>C8: listing the orders of an owner\<close>

lemma me_orders_fetch:
  assumes "verify_init_data L C hdr = Inr user" and "identity_id L user = Inr tg"
    and "- (2 ^ 63) \<le> tg" and "tg < 2 ^ 63"
  shows "me_orders L C (Some d) hdr =
     (case order_dicts L (fetch_orders d tg) of
        Inl e \<Rightarrow> Inl e
      | Inr out \<Rightarrow> Inr (JDict [(''ok'', JBool True), (''orders'', JList out)]))"
  using assms
  by (auto simp: me_orders_def identity_id_def require_pool_def int_arg_def split: sum.splits)

lemma order_dicts_shows:
  assumes "\<forall>r \<in> set rows.
      json_loads L (if services_json r = [] then ''[]'' else services_json r) \<noteq> None"
  shows "\<exists>out. order_dicts L rows = Inr out \<and> list_all2 (shows_order L) rows out"
  using assms
proof (induction rows)
  case Nil
  show ?case by simp
next
  case (Cons r rows)
  from Cons.prems obtain s where
      s: "json_loads L (if services_json r = [] then ''[]'' else services_json r) = Some s"
    by auto
  from Cons obtain out where
      out: "order_dicts L rows = Inr out" "list_all2 (shows_order L) rows out"
    by auto
  let ?entry = "JDict
     [(''public_no'', JStr (public_no r)),
      (''item'', JStr (item r)),
      (''services'', s),
      (''status'', JStr (status r)),
      (''price'', (case price r of None \<Rightarrow> JNull | Some n \<Rightarrow> JInt n)),
      (''comment'', (case comment r of None \<Rightarrow> JNull | Some s \<Rightarrow> JStr s)),
      (''created_at'', JStr (isoformat L (created_at r))),
      (''updated_at'', JStr (isoformat L (updated_at r)))]"
  from s have s': "json_loads L (if services_json r \<noteq> [] then services_json r else ''[]'') = Some s"
    by (simp split: if_splits)
  have "order_dicts L (r # rows) = Inr (?entry # out)"
    using s' out(1) by simp
  moreover have "shows_order L r ?entry"
    using s by (simp add: shows_order_def getitem_def)
  ultimately show ?case using out(2) by simp
qed

text \<open>
  C8. Let the payload verify, with an identity whose \<^verbatim>\<open>id\<close> is the integer
  \<open>tg\<close> (in the range of the column), and let the stored services of that owner's
  rows be JSON text. Then the handler answers \<^verbatim>\<open>{ok: true, orders: [...]}\<close>, and its
  entries show, one for one and in this order, the stored rows whose
  \<^verbatim>\<open>owner_tg_id\<close> is \<open>tg\<close>, each as often as it is stored, with
  \<^verbatim>\<open>created_at\<close> descending. If no row has that owner the list is empty: the
  answer is still a response, not an error.
\<close>

theorem orders_listed_newest_first:
  assumes "verify_init_data L C hdr = Inr user" and "identity_id L user = Inr tg"
    and "- (2 ^ 63) \<le> tg" and "tg < 2 ^ 63"
    and "\<forall>r \<in> set (orders d). owner_tg_id r = Some tg \<longrightarrow>
           json_loads L (if services_json r = [] then ''[]'' else services_json r) \<noteq> None"
  shows "\<exists>rows out.
     me_orders L C (Some d) hdr = Inr (JDict [(''ok'', JBool True), (''orders'', JList out)]) \<and>
     list_all2 (shows_order L) rows out \<and>
     mset rows = mset (filter (\<lambda>r. owner_tg_id r = Some tg) (orders d)) \<and>
     sorted_wrt (\<lambda>r r'. created_at r \<ge> created_at r') rows \<and>
     ((\<forall>r \<in> set (orders d). owner_tg_id r \<noteq> Some tg) \<longrightarrow> out = [])"
proof -
  let ?rows = "fetch_orders d tg"
  have m: "mset ?rows = mset (filter (\<lambda>r. owner_tg_id r = Some tg) (orders d))"
    by (simp add: fetch_orders_def)
  have "sorted (map (\<lambda>r. - created_at r) ?rows)"
    unfolding fetch_orders_def by (rule sorted_sort_key)
  then have s: "sorted_wrt (\<lambda>r r'. created_at r \<ge> created_at r') ?rows"
    by (simp add: sorted_map)
  have "set ?rows = {r \<in> set (orders d). owner_tg_id r = Some tg}"
    by (auto simp: fetch_orders_def)
  with assms(5) have "\<forall>r \<in> set ?rows.
      json_loads L (if services_json r = [] then ''[]'' else services_json r) \<noteq> None"
    by blast
  then obtain out where
      out: "order_dicts L ?rows = Inr out" "list_all2 (shows_order L) ?rows out"
    using order_dicts_shows by blast
  have r: "me_orders L C (Some d) hdr = Inr (JDict [(''ok'', JBool True), (''orders'', JList out)])"
    by (simp add: me_orders_fetch [OF assms(1-4)] out(1))
  have e: "(\<forall>r \<in> set (orders d). owner_tg_id r \<noteq> Some tg) \<longrightarrow> out = []"
  proof
    assume "\<forall>r \<in> set (orders d). owner_tg_id r \<noteq> Some tg"
    then have "filter (\<lambda>r. owner_tg_id r = Some tg) (orders d) = []"
      by (simp add: filter_empty_conv)
    then have "?rows = []" by (simp add: fetch_orders_def)
    with out(2) show "out = []" by simp
  qed
  from r out(2) m s e show ?thesis by blast
qed

lemma three_orders:
  \<open>orders three_orders_db =
     [\<lparr> row_id = 1, public_no = ''A-1'', owner_tg_id = Some 42, owner_phone = None,
        item = ''coat'', services_json = ''["wash", "iron"]'', status = ''new'', price = None,
        comment = None, is_closed = False, created_at = 100, updated_at = 100 \<rparr>,
      \<lparr> row_id = 2, public_no = ''B-7'', owner_tg_id = Some 7, owner_phone = None,
        item = ''coat'', services_json = ''["wash", "iron"]'', status = ''new'', price = None,
        comment = None, is_closed = False, created_at = 200, updated_at = 200 \<rparr>,
      \<lparr> row_id = 3, public_no = ''A-2'', owner_tg_id = Some 42, owner_phone = None,
        item = ''coat'', services_json = ''["wash", "iron"]'', status = ''new'', price = None,
        comment = None, is_closed = False, created_at = 300, updated_at = 300 \<rparr>]\<close>
  by code_simp

lemma three_orders_answer:
  \<open>me_orders test_lib test_config (Some three_orders_db) example_payload =
     Inr (JDict [(''ok'', JBool True), (''orders'', JList
       [JDict [(''public_no'', JStr ''A-2''), (''item'', JStr ''coat''),
               (''services'', JList [JStr ''wash'', JStr ''iron'']), (''status'', JStr ''new''),
               (''price'', JNull), (''comment'', JNull),
               (''created_at'', JStr ''300''), (''updated_at'', JStr ''300'')],
        JDict [(''public_no'', JStr ''A-1''), (''item'', JStr ''coat''),
               (''services'', JList [JStr ''wash'', JStr ''iron'']), (''status'', JStr ''new''),
               (''price'', JNull), (''comment'', JNull),
               (''created_at'', JStr ''100''), (''updated_at'', JStr ''100'')]])])\<close>
  by code_simp

theorem orders_listed_newest_first_witness:
  \<open>(\<exists>rows. list_all2 (shows_order test_lib) rows
       [JDict [(''public_no'', JStr ''A-2''), (''item'', JStr ''coat''),
               (''services'', JList [JStr ''wash'', JStr ''iron'']), (''status'', JStr ''new''),
               (''price'', JNull), (''comment'', JNull),
               (''created_at'', JStr ''300''), (''updated_at'', JStr ''300'')],
        JDict [(''public_no'', JStr ''A-1''), (''item'', JStr ''coat''),
               (''services'', JList [JStr ''wash'', JStr ''iron'']), (''status'', JStr ''new''),
               (''price'', JNull), (''comment'', JNull),
               (''created_at'', JStr ''100''), (''updated_at'', JStr ''100'')]] \<and>
     mset rows = mset (filter (\<lambda>r. owner_tg_id r = Some 42) (orders three_orders_db)) \<and>
     sorted_wrt (\<lambda>r r'. created_at r \<ge> created_at r') rows) \<and>
   me_orders test_lib test_config (Some empty_db) example_payload =
     Inr (JDict [(''ok'', JBool True), (''orders'', JList [])])\<close>
proof -
  have v: "verify_init_data test_lib test_config example_payload = Inr (JDict [(''id'', JInt 42)])"
    by code_simp
  have i: "identity_id test_lib (JDict [(''id'', JInt 42)]) = Inr 42"
    by code_simp
  have lo: "- (2 ^ 63) \<le> (42 :: int)" and hi: "(42 :: int) < 2 ^ 63"
    by simp_all
  have dec: "\<forall>r \<in> set (orders three_orders_db). owner_tg_id r = Some 42 \<longrightarrow>
      json_loads test_lib (if services_json r = [] then ''[]'' else services_json r) \<noteq> None"
    by (simp add: three_orders test_lib_def test_json_loads_def)
  have none: "\<forall>r \<in> set (orders empty_db). owner_tg_id r \<noteq> Some 42"
    by (simp add: empty_db_def)
  then have dec0: "\<forall>r \<in> set (orders empty_db). owner_tg_id r = Some 42 \<longrightarrow>
      json_loads test_lib (if services_json r = [] then ''[]'' else services_json r) \<noteq> None"
    by blast
  from orders_listed_newest_first [OF v i lo hi dec] three_orders_answer
  have 1: \<open>\<exists>rows. list_all2 (shows_order test_lib) rows
       [JDict [(''public_no'', JStr ''A-2''), (''item'', JStr ''coat''),
               (''services'', JList [JStr ''wash'', JStr ''iron'']), (''status'', JStr ''new''),
               (''price'', JNull), (''comment'', JNull),
               (''created_at'', JStr ''300''), (''updated_at'', JStr ''300'')],
        JDict [(''public_no'', JStr ''A-1''), (''item'', JStr ''coat''),
               (''services'', JList [JStr ''wash'', JStr ''iron'']), (''status'', JStr ''new''),
               (''price'', JNull), (''comment'', JNull),
               (''created_at'', JStr ''100''), (''updated_at'', JStr ''100'')]] \<and>
     mset rows = mset (filter (\<lambda>r. owner_tg_id r = Some 42) (orders three_orders_db)) \<and>
     sorted_wrt (\<lambda>r r'. created_at r \<ge> created_at r') rows\<close>
    by auto
  from orders_listed_newest_first [OF v i lo hi dec0] none
  have 2: "me_orders test_lib test_config (Some empty_db) example_payload =
      Inr (JDict [(''ok'', JBool True), (''orders'', JList [])])"
    by auto
  from 1 2 show ?thesis by (rule conjI)
qed

subsection \<open>C3: an identity without a usable id\<close>

lemma subscript_error: "subscript v k = Inl e \<Longrightarrow> e = KeyError \<or> e = TypeError"
  by (cases v) (auto simp: getitem_def split: option.splits)

lemma py_int_error: "py_int L v = Inl e \<Longrightarrow> e = ValueError \<or> e = TypeError"
  by (cases v) (auto split: option.splits)

lemma identity_id_error: "identity_id L user = Inl e \<Longrightarrow> status_code e = 500"
  by (auto simp: identity_id_def dest: subscript_error py_int_error split: sum.splits)

text \<open>
  C3 says that a verified identity whose \<^verbatim>\<open>id\<close> is absent or cannot be made an
  integer is answered with 401. The handler does not catch the exception that
  \<^verbatim>\<open>int(user["id"])\<close> raises: it escapes as \<^verbatim>\<open>KeyError\<close>, \<^verbatim>\<open>TypeError\<close> or
  \<^verbatim>\<open>ValueError\<close>, and the answer is 500.
\<close>

theorem me_orders_unusable_id:
  assumes "verify_init_data L C hdr = Inr user" and "identity_id L user = Inl e"
  shows "me_orders L C pool hdr = Inl e \<and> status_code e = 500 \<and> status_code e \<noteq> 401"
proof -
  from assms have "me_orders L C pool hdr = Inl e"
    by (auto simp: me_orders_def identity_id_def split: sum.splits)
  moreover from assms(2) have "status_code e = 500" by (rule identity_id_error)
  ultimately show ?thesis by simp
qed

theorem me_orders_unusable_id_witness:
  \<open>verify_init_data test_lib test_config no_id_payload = Inr (JDict [(''name'', JStr ''Ann'')]) \<and>
   me_orders test_lib test_config (Some empty_db) no_id_payload = Inl KeyError \<and>
   status_code KeyError = 500\<close>
proof -
  have v: "verify_init_data test_lib test_config no_id_payload = Inr (JDict [(''name'', JStr ''Ann'')])"
    by code_simp
  have i: "identity_id test_lib (JDict [(''name'', JStr ''Ann'')]) = Inl KeyError"
    by code_simp
  from me_orders_unusable_id [OF v i, of "Some empty_db"] v show ?thesis
    by simp
qed

end
